theory Spec2Isabelle
  imports Complex_Main "HOL-Library.Multiset" "HOL-Library.Sublist" "HOL-Library.Extended_Nat"
begin

section \<open>JavaScript numbers and array built-ins used by the analyzers\<close>

text \<open>
  A JavaScript number is a real value, one of the two infinities, or NaN. The analyzers
  only compare numbers, subtract small integers and divide two byte counts; the model
  keeps the exceptional values of IEEE arithmetic (division by zero, \<open>Infinity - Infinity\<close>)
  and takes the finite results as exact reals.
\<close>

datatype jsnum = Num real | PosInf | NegInf | NaN

fun js_sub :: "jsnum \<Rightarrow> jsnum \<Rightarrow> jsnum" where
  "js_sub (Num a) (Num b) = Num (a - b)"
| "js_sub NaN _ = NaN"
| "js_sub _ NaN = NaN"
| "js_sub PosInf PosInf = NaN"
| "js_sub NegInf NegInf = NaN"
| "js_sub PosInf _ = PosInf"
| "js_sub NegInf _ = NegInf"
| "js_sub (Num a) PosInf = NegInf"
| "js_sub (Num a) NegInf = PosInf"

text \<open>
  \<open>a / b\<close> on two finite numbers: a zero divisor gives an infinity or NaN, never an
  error. A double division rounds the real quotient; for two whole numbers below \<open>2^53\<close>,
  as byte counts are, the rounded quotient exceeds \<open>0.5\<close> exactly when the real one does,
  which is all the analyzers ask of it.
\<close>

definition js_div :: "real \<Rightarrow> real \<Rightarrow> jsnum" where
  "js_div a b =
     (if b = 0 then (if a = 0 then NaN else if 0 < a then PosInf else NegInf)
      else Num (a / b))"

text \<open>\<open>a > b\<close>: false as soon as one side is NaN.\<close>

fun js_gt :: "jsnum \<Rightarrow> jsnum \<Rightarrow> bool" where
  "js_gt NaN _ = False"
| "js_gt _ NaN = False"
| "js_gt (Num a) (Num b) = (b < a)"
| "js_gt PosInf PosInf = False"
| "js_gt PosInf _ = True"
| "js_gt _ PosInf = False"
| "js_gt NegInf _ = False"
| "js_gt (Num a) NegInf = True"

text \<open>\<open>Array.prototype.indexOf\<close>: the first position of the element, or \<open>-1\<close>.\<close>

fun indexOf :: "'a list \<Rightarrow> 'a \<Rightarrow> int" where
  "indexOf [] x = -1"
| "indexOf (y # ys) x =
     (if y = x then 0 else (let i = indexOf ys x in if i = -1 then -1 else i + 1))"

text \<open>
  \<open>Array.prototype.sort(comparefn)\<close>. ECMAScript requires the sort to be stable and, for a
  consistent comparator, to leave the elements in ascending comparator order; that result
  is unique, and stable insertion computes it: an element moves behind a neighbour only
  when the comparator returns a value greater than zero for the pair. A comparator result
  of zero or NaN keeps the pair in its order.
\<close>

fun insort_by :: "('a \<Rightarrow> 'a \<Rightarrow> jsnum) \<Rightarrow> 'a \<Rightarrow> 'a list \<Rightarrow> 'a list" where
  "insort_by cmp x [] = [x]"
| "insort_by cmp x (y # ys) =
     (if js_gt (cmp x y) (Num 0) then y # insort_by cmp x ys else x # y # ys)"

definition js_sort :: "('a \<Rightarrow> 'a \<Rightarrow> jsnum) \<Rightarrow> 'a list \<Rightarrow> 'a list" where
  "js_sort cmp xs = foldr (insort_by cmp) xs []"

section \<open>Recommendations\<close>

datatype severity = HIGH | MEDIUM | LOW

text \<open>
  A recommendation as the rules build it. The texts are whatever the injected \<open>i18n\<close>
  object returns, so the record is polymorphic in the type \<open>'m\<close> of rendered values.
\<close>

record 'm details =
  impact :: 'm
  implementation :: "'m list"

record 'm recommendation =
  type :: string
  severity :: severity
  message :: 'm
  suggestion :: 'm
  details :: "'m details"

section \<open>The prioritizer\<close>

fun severityOrder :: "severity \<Rightarrow> real" where
  "severityOrder HIGH = 0"
| "severityOrder MEDIUM = 1"
| "severityOrder LOW = 2"

definition mysql_priorityTypes :: "string list" where
  "mysql_priorityTypes =
     [''TABLE_SCAN'', ''JOIN_OPTIMIZATION'', ''LARGE_TABLE_SCAN'', ''DEPENDENT_SUBQUERY'',
      ''GROUP_BY_OPTIMIZATION'', ''LARGE_SORT'']"

definition pg_priorityTypes :: "string list" where
  "pg_priorityTypes =
     [''SEQUENTIAL_SCAN'', ''EXPENSIVE_NESTED_LOOP'', ''TEMP_FILES'', ''MISSING_JOIN_INDEX'',
      ''INEFFECTIVE_PARTITION'', ''AGGREGATE_SPILL'']"

text \<open>The comparator handed to \<open>sort\<close> in \<open>prioritizeRecommendations\<close>.\<close>

definition compareRecommendations ::
  "string list \<Rightarrow> 'm recommendation \<Rightarrow> 'm recommendation \<Rightarrow> jsnum" where
  "compareRecommendations priorityTypes a b =
     (if severityOrder (severity a) \<noteq> severityOrder (severity b)
      then Num (severityOrder (severity a) - severityOrder (severity b))
      else
        (let aTypePriority = indexOf priorityTypes (type a);
             bTypePriority = indexOf priorityTypes (type b)
         in if aTypePriority \<noteq> bTypePriority
            then js_sub (if aTypePriority = -1 then PosInf else Num (of_int aTypePriority))
                        (if bTypePriority = -1 then PosInf else Num (of_int bTypePriority))
            else Num 0))"

text \<open>The contents of the array after \<open>recommendations.sort(...)\<close>.\<close>

definition prioritized :: "string list \<Rightarrow> 'm recommendation list \<Rightarrow> 'm recommendation list" where
  "prioritized priorityTypes recommendations =
     js_sort (compareRecommendations priorityTypes) recommendations"

text \<open>
  \<open>prioritizeRecommendations\<close> itself works on the caller's array: \<open>sort\<close> reorders the
  array it is called on and returns that same array. Arrays live in a store, indexed by
  their reference; the method takes the reference and returns a reference and the store
  after the call.
\<close>

type_synonym 'm store = "nat \<Rightarrow> 'm recommendation list"

definition prioritizeRecommendations ::
  "string list \<Rightarrow> nat \<Rightarrow> 'm store \<Rightarrow> nat \<times> 'm store" where
  "prioritizeRecommendations priorityTypes r h = (r, h(r := prioritized priorityTypes (h r)))"

text \<open>
  The order that the comparator stands for: severity rank first, then the position of the
  type in the priority list, a type that is not listed coming after every listed one.
\<close>

definition type_rank :: "string list \<Rightarrow> string \<Rightarrow> enat" where
  "type_rank priorityTypes ty =
     (if indexOf priorityTypes ty = -1 then \<infinity> else enat (nat (indexOf priorityTypes ty)))"

definition priority_le :: "string list \<Rightarrow> 'm recommendation \<Rightarrow> 'm recommendation \<Rightarrow> bool" where
  "priority_le pt a b \<longleftrightarrow>
     severityOrder (severity a) < severityOrder (severity b) \<or>
     (severityOrder (severity a) = severityOrder (severity b) \<and>
      type_rank pt (type a) \<le> type_rank pt (type b))"

definition same_priority :: "string list \<Rightarrow> 'm recommendation \<Rightarrow> 'm recommendation \<Rightarrow> bool" where
  "same_priority pt a b \<longleftrightarrow>
     severity a = severity b \<and> type_rank pt (type a) = type_rank pt (type b)"

section \<open>JavaScript values and strings\<close>

text \<open>
  Loosely typed values: substitution parameters handed to \<open>i18n.t\<close>, the \<open>query\<close>
  argument of \<open>analyze\<close>, and plan fields that the rules only test for truthiness.
\<close>

datatype jsval = JUndefined | JNull | JBool bool | JNum real | JStr string

fun truthy :: "jsval \<Rightarrow> bool" where
  "truthy JUndefined = False"
| "truthy JNull = False"
| "truthy (JBool b) = b"
| "truthy (JNum x) = (x \<noteq> 0)"
| "truthy (JStr s) = (s \<noteq> [])"

text \<open>
  A field that holds a string or is missing, and a field that holds a number or is
  missing. In a MySQL result row a missing value is \<open>null\<close>, which \<open>ToNumber\<close> turns into
  \<open>0\<close>; in a PostgreSQL plan object it is \<open>undefined\<close>, which \<open>ToNumber\<close> turns into NaN.
\<close>

definition str_truthy :: "string option \<Rightarrow> bool" where
  "str_truthy v = (case v of None \<Rightarrow> False | Some s \<Rightarrow> s \<noteq> [])"

definition num_truthy :: "real option \<Rightarrow> bool" where
  "num_truthy v = (case v of None \<Rightarrow> False | Some x \<Rightarrow> x \<noteq> 0)"

definition null_number :: "real option \<Rightarrow> real" where
  "null_number v = (case v of None \<Rightarrow> 0 | Some x \<Rightarrow> x)"

definition undefined_number :: "real option \<Rightarrow> jsnum" where
  "undefined_number v = (case v of None \<Rightarrow> NaN | Some x \<Rightarrow> Num x)"

definition str_or_null :: "string option \<Rightarrow> jsval" where
  "str_or_null v = (case v of None \<Rightarrow> JNull | Some s \<Rightarrow> JStr s)"

definition str_or_undefined :: "string option \<Rightarrow> jsval" where
  "str_or_undefined v = (case v of None \<Rightarrow> JUndefined | Some s \<Rightarrow> JStr s)"

definition num_or_null :: "real option \<Rightarrow> jsval" where
  "num_or_null v = (case v of None \<Rightarrow> JNull | Some x \<Rightarrow> JNum x)"

text \<open>
  Strings are lists of characters; the model covers texts in the Latin-1 range, where
  \<open>trim\<close> strips tab, line feed, vertical tab, form feed, carriage return, space and
  no-break space, and \<open>toLowerCase\<close> maps \<open>A\<close>..\<open>Z\<close> and the accented capitals to their
  small letters.
\<close>

definition isWhiteSpace :: "char \<Rightarrow> bool" where
  "isWhiteSpace c \<longleftrightarrow>
     c \<in> {CHR 0x09, CHR 0x0A, CHR 0x0B, CHR 0x0C, CHR 0x0D, CHR 0x20, CHR 0xA0}"

definition trim :: "string \<Rightarrow> string" where
  "trim s = rev (dropWhile isWhiteSpace (rev (dropWhile isWhiteSpace s)))"

definition upper_letters :: string where
  "upper_letters =
     ''ABCDEFGHIJKLMNOPQRSTUVWXYZ'' @
       [CHR 0xC0, CHR 0xC1, CHR 0xC2, CHR 0xC3, CHR 0xC4, CHR 0xC5, CHR 0xC6, CHR 0xC7,
        CHR 0xC8, CHR 0xC9, CHR 0xCA, CHR 0xCB, CHR 0xCC, CHR 0xCD, CHR 0xCE, CHR 0xCF,
        CHR 0xD0, CHR 0xD1, CHR 0xD2, CHR 0xD3, CHR 0xD4, CHR 0xD5, CHR 0xD6, CHR 0xD8,
        CHR 0xD9, CHR 0xDA, CHR 0xDB, CHR 0xDC, CHR 0xDD, CHR 0xDE]"

definition lower_letters :: string where
  "lower_letters =
     ''abcdefghijklmnopqrstuvwxyz'' @
       [CHR 0xE0, CHR 0xE1, CHR 0xE2, CHR 0xE3, CHR 0xE4, CHR 0xE5, CHR 0xE6, CHR 0xE7,
        CHR 0xE8, CHR 0xE9, CHR 0xEA, CHR 0xEB, CHR 0xEC, CHR 0xED, CHR 0xEE, CHR 0xEF,
        CHR 0xF0, CHR 0xF1, CHR 0xF2, CHR 0xF3, CHR 0xF4, CHR 0xF5, CHR 0xF6, CHR 0xF8,
        CHR 0xF9, CHR 0xFA, CHR 0xFB, CHR 0xFC, CHR 0xFD, CHR 0xFE]"

definition toLowerCase_char :: "char \<Rightarrow> char" where
  "toLowerCase_char c =
     (case map_of (zip upper_letters lower_letters) c of None \<Rightarrow> c | Some l \<Rightarrow> l)"

definition toLowerCase :: "string \<Rightarrow> string" where
  "toLowerCase s = map toLowerCase_char s"

definition startsWith :: "string \<Rightarrow> string \<Rightarrow> bool" where
  "startsWith s p = prefix p s"

text \<open>\<open>String.prototype.includes\<close>: the search string occurs at some position.\<close>

fun str_includes :: "string \<Rightarrow> string \<Rightarrow> bool" where
  "str_includes [] sub = (sub = [])"
| "str_includes (c # cs) sub = (prefix sub (c # cs) \<or> str_includes cs sub)"

text \<open>\<open>v?.includes(sub)\<close> on a string or \<open>null\<close>: \<open>undefined\<close>, hence falsy, on \<open>null\<close>.\<close>

definition opt_includes :: "string option \<Rightarrow> string \<Rightarrow> bool" where
  "opt_includes v sub = (case v of None \<Rightarrow> False | Some s \<Rightarrow> str_includes s sub)"

text \<open>\<open>String.prototype.split\<close> with a one-character separator.\<close>

fun split_on :: "char \<Rightarrow> string \<Rightarrow> string list" where
  "split_on sep [] = [[]]"
| "split_on sep (c # cs) =
     (if c = sep then [] # split_on sep cs
      else (case split_on sep cs of [] \<Rightarrow> [[c]] | w # ws \<Rightarrow> (c # w) # ws))"

text \<open>
  Errors as values. \<open>Error m\<close> is an error object with message \<open>m\<close> (thrown by the analyzer
  or by the database driver), \<open>TypeError\<close> is the runtime's error on reading a property of
  \<open>undefined\<close> or calling what is not a function, and \<open>Prefixed p e\<close> is
  \<open>new Error(`p${e.message}`)\<close>.
\<close>

datatype js_error = Error string | TypeError | Prefixed string js_error

section \<open>The translation service\<close>

text \<open>
  An entry of the translation table: a text, a template function, a nested group, or an
  array of texts. A template is called with the whole parameter object; its template
  literal converts that argument to a string.
\<close>

type_synonym params = "(string \<times> jsval) list"

datatype entry =
    Text string
  | Template "params \<Rightarrow> string"
  | Group "(string \<times> entry) list"
  | Items "string list"

text \<open>\<open>ToString\<close> of a plain object (one without a \<open>toString\<close> of its own).\<close>

definition object_ToString :: "params \<Rightarrow> string" where
  "object_ToString obj = ''[object Object]''"

definition en_recommendations :: entry where
  "en_recommendations =
     Group
       [(''tableScan'', Group
           [(''message'', Template (\<lambda>tableName. ''Full table scan detected on table '' @ object_ToString tableName)),
            (''suggestion'', Text ''Consider adding appropriate indexes''),
            (''impact'', Text ''Full table scans can significantly impact query performance''),
            (''implementation'', Group
               [(''review'', Text ''Review WHERE clause conditions''),
                (''addIndexes'', Text ''Add indexes on frequently filtered columns''),
                (''coveringIndexes'', Text ''Consider creating covering indexes'')])]),
        (''accessType'', Group
           [(''message'', Template (\<lambda>type. ''Suboptimal access type '' @ [CHR 0x27] @ object_ToString type @ [CHR 0x27] @ '' detected'')),
            (''suggestion'', Text ''Improve table access method''),
            (''impact'', Text ''Current access method may result in poor performance''),
            (''implementation'', Group
               [(''review'', Text ''Review query conditions and table structure''),
                (''indexCoverage'', Text ''Ensure proper index coverage''),
                (''restructure'', Text ''Consider restructuring the query'')])]),
        (''joinOptimization'', Group
           [(''message'', Text ''Inefficient join operation detected''),
            (''suggestion'', Text ''Optimize join operations''),
            (''impact'', Text ''Current join strategy may cause performance issues''),
            (''implementation'', Group
               [(''addIndexes'', Text ''Add indexes on join columns''),
                (''reviewConditions'', Text ''Review join conditions''),
                (''denormalization'', Text ''Consider selective denormalization'')])]),
        (''joinBuffer'', Group
           [(''message'', Text ''Join buffer being used for table join''),
            (''suggestion'', Text ''Optimize join buffer usage''),
            (''impact'', Text ''Join buffer usage may indicate missing or inefficient indexes''),
            (''implementation'', Group
               [(''addIndexes'', Text ''Add appropriate indexes on join columns''),
                (''reviewOrder'', Text ''Review join order''),
                (''bufferSize'', Text ''Adjust join buffer size if necessary'')])]),
        (''tempTable'', Group
           [(''message'', Text ''Temporary table created for query execution''),
            (''suggestion'', Text ''Minimize temporary table usage''),
            (''impact'', Text ''Temporary tables can consume memory and slow query execution''),
            (''implementation'', Group
               [(''review'', Text ''Review query structure''),
                (''addIndexes'', Text ''Add appropriate indexes''),
                (''restructure'', Text ''Consider query restructuring'')])]),
        (''fileSort'', Group
           [(''message'', Text ''Filesort operation detected''),
            (''suggestion'', Text ''Optimize sorting operations''),
            (''impact'', Text ''Filesort operations can be resource-intensive''),
            (''implementation'', Group
               [(''addIndexes'', Text ''Add indexes matching sort order''),
                (''bufferSize'', Text ''Adjust sort buffer size''),
                (''limitResults'', Text ''Consider limiting result set'')])]),
        (''unusedIndexes'', Group
           [(''message'', Text ''Potential indexes not being used''),
            (''suggestion'', Text ''Review index usage''),
            (''impact'', Text ''Unused indexes add overhead without benefits''),
            (''implementation'', Group
               [(''analyze'', Text ''Analyze index usage patterns''),
                (''review'', Text ''Review and remove unused indexes''),
                (''forceIndex'', Text ''Consider force index hint if needed'')])]),
        (''partialIndex'', Group
           [(''message'', Text ''Partial index usage detected''),
            (''suggestion'', Text ''Optimize index coverage''),
            (''impact'', Text ''Partial index usage may not provide optimal performance''),
            (''implementation'', Group
               [(''review'', Text ''Review index structure''),
                (''covering'', Text ''Consider creating covering indexes''),
                (''analyze'', Text ''Analyze query patterns'')])]),
        (''dependentSubquery'', Group
           [(''message'', Text ''Dependent subquery detected''),
            (''suggestion'', Text ''Optimize or eliminate dependent subquery''),
            (''impact'', Text ''Dependent subqueries execute once for each outer row, potentially causing performance issues''),
            (''implementation'', Group
               [(''join'', Text ''Consider replacing with JOIN''),
                (''rewrite'', Text ''Rewrite as uncorrelated subquery''),
                (''indexes'', Text ''Add indexes to support subquery execution'')])]),
        (''subquery'', Group
           [(''message'', Text ''Uncorrelated subquery detected''),
            (''suggestion'', Text ''Review and optimize subquery implementation''),
            (''impact'', Text ''Subquery execution might not be using optimal execution plan''),
            (''implementation'', Group
               [(''join'', Text ''Consider replacing with JOIN''),
                (''rewrite'', Text ''Rewrite using derived tables''),
                (''indexes'', Text ''Ensure proper indexing for subquery''),
                (''limit'', Text ''Consider adding LIMIT if applicable'')])]),
        (''groupBy'', Group
           [(''message'', Text ''Inefficient GROUP BY operation detected''),
            (''suggestion'', Text ''Optimize grouping operations''),
            (''impact'', Text ''Unoptimized GROUP BY operations can create temporary tables and require filesorts''),
            (''implementation'', Group
               [(''index'', Text ''Add indexes on grouped columns''),
                (''composite'', Text ''Consider composite indexes for group and filter columns''),
                (''review'', Text ''Review grouping criteria necessity'')])]),
        (''looseIndexScan'', Group
           [(''message'', Text ''Potential for loose index scan optimization''),
            (''suggestion'', Text ''Consider rewriting query to use loose index scan''),
            (''impact'', Text ''Query could benefit from loose index scan optimization''),
            (''implementation'', Group
               [(''rewrite'', Text ''Rewrite query to enable loose index scan''),
                (''index'', Text ''Ensure proper index structure''),
                (''min_max'', Text ''Use MIN/MAX optimizations where applicable'')])]),
        (''largeSort'', Group
           [(''message'', Template (\<lambda>rows. ''Large sort operation detected ('' @ object_ToString rows @ '' rows)'')),
            (''suggestion'', Text ''Optimize sorting for large result sets''),
            (''impact'', Text ''Sorting large result sets can consume significant memory and CPU resources''),
            (''implementation'', Group
               [(''indexSort'', Text ''Create indexes matching the sort columns''),
                (''limit'', Text ''Consider limiting the result set size''),
                (''buffer'', Text ''Adjust sort buffer size if necessary'')])]),
        (''largeTableScan'', Group
           [(''message'', Template (\<lambda>rows. ''Large table scan detected ('' @ object_ToString rows @ '' rows)'')),
            (''suggestion'', Text ''Optimize access pattern for large tables''),
            (''impact'', Text ''Scanning large tables can severely impact performance''),
            (''implementation'', Group
               [(''addIndexes'', Text ''Add appropriate indexes''),
                (''partition'', Text ''Consider table partitioning''),
                (''optimize'', Text ''Optimize table statistics'')])]),
        (''highIndexRatio'', Group
           [(''message'', Text ''High index to data ratio detected''),
            (''suggestion'', Text ''Review index strategy''),
            (''impact'', Text ''Excessive indexes can impact write performance''),
            (''implementation'', Group
               [(''review'', Text ''Review existing indexes''),
                (''remove'', Text ''Remove redundant indexes''),
                (''covering'', Text ''Optimize covering indexes'')])]),
        (''whereClause'', Group
           [(''message'', Text ''Inefficient WHERE clause processing''),
            (''suggestion'', Text ''Optimize WHERE clause execution''),
            (''impact'', Text ''Inefficient WHERE clauses can slow query execution''),
            (''implementation'', Group
               [(''review'', Text ''Review WHERE conditions''),
                (''addIndexes'', Text ''Add selective indexes''),
                (''restructure'', Text ''Consider query restructuring'')])]),
        (''distinct'', Group
           [(''message'', Text ''Inefficient DISTINCT operation detected''),
            (''suggestion'', Text ''Optimize DISTINCT processing''),
            (''impact'', Text ''DISTINCT operations may create temporary tables''),
            (''implementation'', Group
               [(''groupBy'', Text ''Consider using GROUP BY''),
                (''covering'', Text ''Use covering indexes''),
                (''review'', Text ''Review necessity of DISTINCT'')])]),
        (''partitioning'', Group
           [(''message'', Text ''Suboptimal partition pruning detected''),
            (''suggestion'', Text ''Optimize partition strategy''),
            (''impact'', Text ''Poor partition pruning can impact performance''),
            (''implementation'', Group
               [(''review'', Text ''Review partitioning scheme''),
                (''ensure'', Text ''Ensure partition key usage in queries''),
                (''consider'', Text ''Consider alternative partitioning strategies'')])])]"

definition translations_en :: entry where
  "translations_en =
     Group
       [(''title'', Text ''DB Query Analyzer''),
        (''subtitle'', Text ''Analyze and optimize your database queries''),
        (''dbSelection'', Group
           [(''type'', Text ''Select your database type:''),
            (''host'', Text ''Enter database host:''),
            (''port'', Text ''Enter database port:''),
            (''username'', Text ''Enter database username:''),
            (''password'', Text ''Enter database password:''),
            (''database'', Text ''Select database:''),
            (''query'', Text ''Enter your SQL query:'')]),
        (''connection'', Group
           [(''testing'', Text ''Testing database connection...''),
            (''success'', Group
               [(''mysql'', Text ''Successfully connected to MySQL server!''),
                (''postgresql'', Text ''Successfully connected to PostgreSQL server!'')]),
            (''failed'', Text ''Connection failed: ''),
            (''noDb'', Text ''No available databases found'')]),
        (''analysis'', Group
           [(''analyzing'', Text ''Analyzing query...''),
            (''complete'', Text ''Analysis complete!'')]),
        (''visualization'', Group
           [(''headers'', Group
               [(''query'', Text ''Your SQL Query''),
                (''results'', Text ''Query Analysis Results''),
                (''plan'', Text ''Execution Plan''),
                (''stats'', Text ''Table Statistics''),
                (''indexes'', Text ''Existing Indexes''),
                (''recommendations'', Text ''Recommendations'')]),
            (''table'', Group
               [(''operation'', Text ''Operation''),
                (''cost'', Text ''Cost''),
                (''rows'', Text ''Rows''),
                (''details'', Text ''Details''),
                (''table'', Text ''Table''),
                (''size'', Text ''Size''),
                (''indexSize'', Text ''Index Size''),
                (''indexName'', Text ''Index Name''),
                (''columns'', Text ''Columns''),
                (''type'', Text ''Type'')]),
            (''noData'', Group
               [(''plan'', Text ''No execution plan available''),
                (''stats'', Text ''No statistics available''),
                (''indexes'', Text ''No indexes found''),
                (''recommendations'', Text ''No recommendations available.'')])]),
        (''errors'', Group
           [(''analysis'', Text ''Error during analysis:''),
            (''display'', Text ''Error displaying results:''),
            (''emptyQuery'', Text ''Query cannot be empty''),
            (''connection'', Group
               [(''solutions'', Group
                   [(''title'', Text ''Possible solutions:''),
                    (''mysql'', Items
                       [''1. Make sure MySQL server is running'',
                        ''2. Verify the port number (default is 3306)'',
                        ''3. Check if MySQL is accepting connections from your IP'',
                        ''4. Try the following command to check MySQL status:'',
                        ''   sudo service mysql status   (Linux)'',
                        ''   brew services list          (MacOS)'']),
                    (''auth'', Items
                       [''1. Check if the username and password are correct'',
                        ''2. Verify that the user has proper privileges'',
                        ''3. Try using mysql_native_password authentication:'',
                        ''   ALTER USER 'username'@'hostname' IDENTIFIED WITH mysql_native_password BY 'password';''])])])]),
        (''analyzer'', Group
           [(''errors'', Group
               [(''recommendations'', Text ''Error generating recommendations: '')]),
            (''recommendations'', en_recommendations)])]"

definition id_recommendations :: entry where
  "id_recommendations =
     Group
       [(''tableScan'', Group
           [(''message'', Template (\<lambda>tableName. ''Full table scan terdeteksi pada tabel '' @ object_ToString tableName)),
            (''suggestion'', Text ''Pertimbangkan untuk menambahkan indeks yang sesuai''),
            (''impact'', Text ''Full table scan dapat berdampak signifikan pada kinerja query''),
            (''implementation'', Group
               [(''review'', Text ''Tinjau kondisi klausa WHERE''),
                (''addIndexes'', Text ''Tambahkan indeks pada kolom yang sering difilter''),
                (''coveringIndexes'', Text ''Pertimbangkan membuat covering indexes'')])]),
        (''accessType'', Group
           [(''message'', Template (\<lambda>type. ''Tipe akses suboptimal '' @ [CHR 0x27] @ object_ToString type @ [CHR 0x27] @ '' terdeteksi'')),
            (''suggestion'', Text ''Tingkatkan metode akses tabel''),
            (''impact'', Text ''Metode akses saat ini dapat mengakibatkan kinerja buruk''),
            (''implementation'', Group
               [(''review'', Text ''Tinjau kondisi query dan struktur tabel''),
                (''indexCoverage'', Text ''Pastikan cakupan indeks yang tepat''),
                (''restructure'', Text ''Pertimbangkan restrukturisasi query'')])]),
        (''joinOptimization'', Group
           [(''message'', Text ''Operasi join tidak efisien terdeteksi''),
            (''suggestion'', Text ''Optimalkan operasi join''),
            (''impact'', Text ''Strategi join saat ini dapat menyebabkan masalah kinerja''),
            (''implementation'', Group
               [(''addIndexes'', Text ''Tambahkan indeks pada kolom join''),
                (''reviewConditions'', Text ''Tinjau kondisi join''),
                (''denormalization'', Text ''Pertimbangkan denormalisasi selektif'')])]),
        (''joinBuffer'', Group
           [(''message'', Text ''Buffer join digunakan untuk join tabel''),
            (''suggestion'', Text ''Optimalkan penggunaan buffer join''),
            (''impact'', Text ''Penggunaan buffer join dapat menunjukkan indeks yang hilang atau tidak efisien''),
            (''implementation'', Group
               [(''addIndexes'', Text ''Tambahkan indeks yang sesuai pada kolom join''),
                (''reviewOrder'', Text ''Tinjau urutan join''),
                (''bufferSize'', Text ''Sesuaikan ukuran buffer join jika perlu'')])]),
        (''tempTable'', Group
           [(''message'', Text ''Tabel temporary dibuat untuk eksekusi query''),
            (''suggestion'', Text ''Minimalkan penggunaan tabel temporary''),
            (''impact'', Text ''Tabel temporary dapat mengonsumsi memori dan memperlambat eksekusi query''),
            (''implementation'', Group
               [(''review'', Text ''Tinjau struktur query''),
                (''addIndexes'', Text ''Tambahkan indeks yang sesuai''),
                (''restructure'', Text ''Pertimbangkan restrukturisasi query'')])]),
        (''fileSort'', Group
           [(''message'', Text ''Operasi filesort terdeteksi''),
            (''suggestion'', Text ''Optimalkan operasi pengurutan''),
            (''impact'', Text ''Operasi filesort dapat mengonsumsi banyak sumber daya''),
            (''implementation'', Group
               [(''addIndexes'', Text ''Tambahkan indeks sesuai urutan pengurutan''),
                (''bufferSize'', Text ''Sesuaikan ukuran buffer pengurutan''),
                (''limitResults'', Text ''Pertimbangkan pembatasan hasil'')])]),
        (''unusedIndexes'', Group
           [(''message'', Text ''Indeks potensial tidak digunakan''),
            (''suggestion'', Text ''Tinjau penggunaan indeks''),
            (''impact'', Text ''Indeks yang tidak digunakan menambah beban tanpa manfaat''),
            (''implementation'', Group
               [(''analyze'', Text ''Analisis pola penggunaan indeks''),
                (''review'', Text ''Tinjau dan hapus indeks yang tidak digunakan''),
                (''forceIndex'', Text ''Pertimbangkan penggunaan force index jika diperlukan'')])]),
        (''partialIndex'', Group
           [(''message'', Text ''Penggunaan indeks parsial terdeteksi''),
            (''suggestion'', Text ''Optimalkan cakupan indeks''),
            (''impact'', Text ''Penggunaan indeks parsial mungkin tidak memberikan kinerja optimal''),
            (''implementation'', Group
               [(''review'', Text ''Tinjau struktur indeks''),
                (''covering'', Text ''Pertimbangkan pembuatan covering indexes''),
                (''analyze'', Text ''Analisis pola query'')])]),
        (''largeSort'', Group
           [(''message'', Template (\<lambda>rows. ''Operasi pengurutan besar terdeteksi ('' @ object_ToString rows @ '' baris)'')),
            (''suggestion'', Text ''Optimalkan pengurutan untuk hasil yang besar''),
            (''impact'', Text ''Mengurutkan hasil yang besar dapat mengonsumsi banyak memori dan CPU''),
            (''implementation'', Group
               [(''indexSort'', Text ''Buat indeks yang sesuai dengan kolom pengurutan''),
                (''limit'', Text ''Pertimbangkan untuk membatasi ukuran hasil''),
                (''buffer'', Text ''Sesuaikan ukuran buffer pengurutan jika perlu'')])]),
        (''dependentSubquery'', Group
           [(''message'', Text ''Subquery dependen terdeteksi''),
            (''suggestion'', Text ''Optimalkan atau hilangkan subquery dependen''),
            (''impact'', Text ''Subquery dependen dieksekusi sekali untuk setiap baris luar, berpotensi menyebabkan masalah kinerja''),
            (''implementation'', Group
               [(''join'', Text ''Pertimbangkan mengganti dengan JOIN''),
                (''rewrite'', Text ''Tulis ulang sebagai subquery tidak berkorelasi''),
                (''indexes'', Text ''Tambahkan indeks untuk mendukung eksekusi subquery'')])]),
        (''subquery'', Group
           [(''message'', Text ''Subquery tidak berkorelasi terdeteksi''),
            (''suggestion'', Text ''Tinjau dan optimalkan implementasi subquery''),
            (''impact'', Text ''Eksekusi subquery mungkin tidak menggunakan rencana eksekusi optimal''),
            (''implementation'', Group
               [(''join'', Text ''Pertimbangkan mengganti dengan JOIN''),
                (''rewrite'', Text ''Tulis ulang menggunakan derived tables''),
                (''indexes'', Text ''Pastikan pengindeksan yang tepat untuk subquery''),
                (''limit'', Text ''Pertimbangkan menambahkan LIMIT jika memungkinkan'')])]),
        (''groupBy'', Group
           [(''message'', Text ''Operasi GROUP BY tidak efisien terdeteksi''),
            (''suggestion'', Text ''Optimalkan operasi pengelompokan''),
            (''impact'', Text ''Operasi GROUP BY yang tidak optimal dapat membuat tabel temporary dan memerlukan filesort''),
            (''implementation'', Group
               [(''index'', Text ''Tambahkan indeks pada kolom yang dikelompokkan''),
                (''composite'', Text ''Pertimbangkan indeks komposit untuk kolom group dan filter''),
                (''review'', Text ''Tinjau kebutuhan kriteria pengelompokan'')])]),
        (''looseIndexScan'', Group
           [(''message'', Text ''Potensi untuk optimasi loose index scan''),
            (''suggestion'', Text ''Pertimbangkan menulis ulang query untuk menggunakan loose index scan''),
            (''impact'', Text ''Query bisa mendapat manfaat dari optimasi loose index scan''),
            (''implementation'', Group
               [(''rewrite'', Text ''Tulis ulang query untuk mengaktifkan loose index scan''),
                (''index'', Text ''Pastikan struktur indeks yang tepat''),
                (''min_max'', Text ''Gunakan optimasi MIN/MAX jika memungkinkan'')])]),
        (''largeTableScan'', Group
           [(''message'', Template (\<lambda>rows. ''Pemindaian tabel besar terdeteksi ('' @ object_ToString rows @ '' baris)'')),
            (''suggestion'', Text ''Optimalkan pola akses untuk tabel besar''),
            (''impact'', Text ''Memindai tabel besar dapat sangat mempengaruhi kinerja''),
            (''implementation'', Group
               [(''addIndexes'', Text ''Tambahkan indeks yang sesuai''),
                (''partition'', Text ''Pertimbangkan partisi tabel''),
                (''optimize'', Text ''Optimalkan statistik tabel'')])]),
        (''highIndexRatio'', Group
           [(''message'', Text ''Rasio indeks ke data yang tinggi terdeteksi''),
            (''suggestion'', Text ''Tinjau strategi pengindeksan''),
            (''impact'', Text ''Indeks berlebihan dapat mempengaruhi kinerja penulisan''),
            (''implementation'', Group
               [(''review'', Text ''Tinjau indeks yang ada''),
                (''remove'', Text ''Hapus indeks yang redundan''),
                (''covering'', Text ''Optimalkan covering indexes'')])]),
        (''whereClause'', Group
           [(''message'', Text ''Pemrosesan klausa WHERE tidak efisien''),
            (''suggestion'', Text ''Optimalkan eksekusi klausa WHERE''),
            (''impact'', Text ''Klausa WHERE yang tidak efisien dapat memperlambat eksekusi query''),
            (''implementation'', Group
               [(''review'', Text ''Tinjau kondisi WHERE''),
                (''addIndexes'', Text ''Tambahkan indeks selektif''),
                (''restructure'', Text ''Pertimbangkan restrukturisasi query'')])]),
        (''distinct'', Group
           [(''message'', Text ''Operasi DISTINCT tidak efisien terdeteksi''),
            (''suggestion'', Text ''Optimalkan pemrosesan DISTINCT''),
            (''impact'', Text ''Operasi DISTINCT dapat membuat tabel temporary''),
            (''implementation'', Group
               [(''groupBy'', Text ''Pertimbangkan penggunaan GROUP BY''),
                (''covering'', Text ''Gunakan covering indexes''),
                (''review'', Text ''Tinjau kebutuhan DISTINCT'')])]),
        (''partitioning'', Group
           [(''message'', Text ''Pemangkasan partisi suboptimal terdeteksi''),
            (''suggestion'', Text ''Optimalkan strategi partisi''),
            (''impact'', Text ''Pemangkasan partisi yang buruk dapat mempengaruhi kinerja''),
            (''implementation'', Group
               [(''review'', Text ''Tinjau skema partisi''),
                (''ensure'', Text ''Pastikan penggunaan kunci partisi dalam query''),
                (''consider'', Text ''Pertimbangkan strategi partisi alternatif'')])])]"

definition translations_id :: entry where
  "translations_id =
     Group
       [(''title'', Text ''DB Query Analyzer''),
        (''subtitle'', Text ''Analisis dan optimalkan query database Anda''),
        (''dbSelection'', Group
           [(''type'', Text ''Pilih tipe database:''),
            (''host'', Text ''Masukkan host database:''),
            (''port'', Text ''Masukkan port database:''),
            (''username'', Text ''Masukkan username database:''),
            (''password'', Text ''Masukkan password database:''),
            (''database'', Text ''Pilih database:''),
            (''query'', Text ''Masukkan query SQL Anda:'')]),
        (''connection'', Group
           [(''testing'', Text ''Menguji koneksi database...''),
            (''success'', Group
               [(''mysql'', Text ''Berhasil terhubung ke server MySQL!''),
                (''postgresql'', Text ''Berhasil terhubung ke server PostgreSQL!'')]),
            (''failed'', Text ''Koneksi gagal: ''),
            (''noDb'', Text ''Tidak ada database yang tersedia'')]),
        (''analysis'', Group
           [(''analyzing'', Text ''Menganalisis query...''),
            (''complete'', Text ''Analisis selesai!'')]),
        (''visualization'', Group
           [(''headers'', Group
               [(''query'', Text ''Query SQL Anda''),
                (''results'', Text ''Hasil Analisis Query''),
                (''plan'', Text ''Rencana Eksekusi''),
                (''stats'', Text ''Statistik Tabel''),
                (''indexes'', Text ''Index Yang Ada''),
                (''recommendations'', Text ''Rekomendasi'')]),
            (''table'', Group
               [(''operation'', Text ''Operasi''),
                (''cost'', Text ''Biaya''),
                (''rows'', Text ''Baris''),
                (''details'', Text ''Detail''),
                (''table'', Text ''Tabel''),
                (''size'', Text ''Ukuran''),
                (''indexSize'', Text ''Ukuran Index''),
                (''indexName'', Text ''Nama Index''),
                (''columns'', Text ''Kolom''),
                (''type'', Text ''Tipe'')]),
            (''noData'', Group
               [(''plan'', Text ''Tidak ada rencana eksekusi tersedia''),
                (''stats'', Text ''Tidak ada statistik tersedia''),
                (''indexes'', Text ''Tidak ada index ditemukan''),
                (''recommendations'', Text ''Tidak ada rekomendasi tersedia.'')])]),
        (''errors'', Group
           [(''analysis'', Text ''Error selama analisis:''),
            (''display'', Text ''Error menampilkan hasil:''),
            (''emptyQuery'', Text ''Query tidak boleh kosong''),
            (''connection'', Group
               [(''solutions'', Group
                   [(''title'', Text ''Solusi yang mungkin:''),
                    (''mysql'', Items
                       [''1. Pastikan server MySQL berjalan'',
                        ''2. Verifikasi nomor port (default adalah 3306)'',
                        ''3. Periksa apakah MySQL menerima koneksi dari IP Anda'',
                        ''4. Coba perintah bFull table scan terdeteksi pada tabelerikut untuk memeriksa status MySQL:'',
                        ''   sudo service mysql status   (Linux)'',
                        ''   brew services list          (MacOS)'']),
                    (''auth'', Items
                       [''1. Periksa apakah username dan password sudah benar'',
                        ''2. Verifikasi bahwa pengguna memiliki hak akses yang sesuai'',
                        ''3. Coba gunakan autentikasi mysql_native_password:'',
                        ''   ALTER USER 'username'@'hostname' IDENTIFIED WITH mysql_native_password BY 'password';''])])])]),
        (''analyzer'', Group
           [(''errors'', Group
               [(''recommendations'', Text ''Error menghasilkan rekomendasi: '')]),
            (''recommendations'', id_recommendations)])]"

text \<open>The languages of the table, \<open>'en'\<close> and \<open>'id'\<close>, and \<open>translations[lang]\<close>.\<close>

datatype lang = EN | ID

definition translation_table :: "lang \<Rightarrow> entry" where
  "translation_table l = (case l of EN \<Rightarrow> translations_en | ID \<Rightarrow> translations_id)"

fun entry_truthy :: "entry \<Rightarrow> bool" where
  "entry_truthy (Text s) = (s \<noteq> [])"
| "entry_truthy _ = True"

text \<open>
  One step of the \<open>reduce\<close> in \<open>getNestedValue\<close>: \<open>(p && p[c]) ? p[c] : null\<close>, with \<open>None\<close>
  for \<open>null\<close>. Only own properties of groups are looked up; the keys the analyzers use
  never name a property of a string, of a function or of \<open>Object.prototype\<close>, nor an
  index of an array.
\<close>

definition nested_step :: "entry option \<Rightarrow> string \<Rightarrow> entry option" where
  "nested_step p c =
     (case p of
        Some (Group kvs) \<Rightarrow>
          (case map_of kvs c of
             Some v \<Rightarrow> if entry_truthy v then Some v else None
           | None \<Rightarrow> None)
      | _ \<Rightarrow> None)"

definition getNestedValue :: "entry \<Rightarrow> string \<Rightarrow> entry option" where
  "getNestedValue obj path = foldl nested_step (Some obj) (split_on CHR ''.'' path)"

text \<open>\<open>I18n.t\<close> for the current language \<open>l\<close>.\<close>

definition I18n_t :: "lang \<Rightarrow> string \<Rightarrow> params \<Rightarrow> entry" where
  "I18n_t l key params =
     (case getNestedValue (translation_table l) key of
        Some (Template f) \<Rightarrow> Text (f params)
      | Some v \<Rightarrow> v
      | None \<Rightarrow> Text key)"

section \<open>Building a recommendation\<close>

text \<open>
  The analyzers receive the translation service as a constructor argument; the rules are
  therefore parametric in the function \<open>t\<close> behind \<open>this.i18n.t\<close>, taken to return without
  raising, as \<open>I18n.t\<close> does. Every rule pushes an object literal of one shape, whose texts
  are looked up under \<open>analyzer.recommendations.<name>\<close>; only the message lookup may
  carry parameters.
\<close>

type_synonym 'm i18n = "string \<Rightarrow> params \<Rightarrow> 'm"

definition finding ::
  "'m i18n \<Rightarrow> string \<Rightarrow> severity \<Rightarrow> string \<Rightarrow> params \<Rightarrow> string list \<Rightarrow> 'm recommendation" where
  "finding t ty sev name ps steps =
     \<lparr>type = ty, severity = sev,
      message = t (''analyzer.recommendations.'' @ name @ ''.message'') ps,
      suggestion = t (''analyzer.recommendations.'' @ name @ ''.suggestion'') [],
      details =
        \<lparr>impact = t (''analyzer.recommendations.'' @ name @ ''.impact'') [],
         implementation =
           map (\<lambda>step. t (''analyzer.recommendations.'' @ name @ ''.implementation.'' @ step) [])
             steps\<rparr>\<rparr>"

definition push :: "'a \<Rightarrow> 'a list \<Rightarrow> 'a list" where
  "push x xs = xs @ [x]"

text \<open>
  A rule works on the array of recommendations collected so far. It returns the array
  after its pushes and, when it raised, the error.
\<close>

type_synonym 'm rule = "'m recommendation list \<Rightarrow> js_error option \<times> 'm recommendation list"

definition returns :: "('m recommendation list \<Rightarrow> 'm recommendation list) \<Rightarrow> 'm rule" where
  "returns f recs = (None, f recs)"

text \<open>Statements in sequence inside a \<open>try\<close> block: the first error ends the block.\<close>

fun run_rules :: "'m rule list \<Rightarrow> 'm rule" where
  "run_rules [] recs = (None, recs)"
| "run_rules (r # rs) recs =
     (case r recs of
        (Some e, recs') \<Rightarrow> (Some e, recs')
      | (None, recs') \<Rightarrow> run_rules rs recs')"

section \<open>The MySQL analyzer: data\<close>

text \<open>
  A row of \<open>EXPLAIN\<close> output. A column that is \<open>NULL\<close> arrives as \<open>null\<close> (\<open>None\<close>). The
  column \<open>type\<close> is named \<open>access_type\<close> here, the name \<open>type\<close> being taken by the
  recommendation's field.
\<close>

record mysql_row =
  access_type :: "string option"
  table :: "string option"
  select_type :: "string option"
  key :: "string option"
  Extra :: "string option"
  possible_keys :: "string option"
  key_len :: "string option"
  ref :: "string option"
  partitions :: "string option"
  rows :: "real option"

text \<open>A row of \<open>information_schema.tables\<close> and a row of \<open>information_schema.statistics\<close>.\<close>

record table_stat =
  table_name :: string
  table_rows :: "real option"
  data_length :: "real option"
  index_length :: "real option"

record index_row =
  index_table_name :: string
  index_name :: string
  column_name :: string
  non_unique :: real

section \<open>The MySQL analyzer: rules\<close>

definition mysql_analyzeTableAccessMethod ::
  "'m i18n \<Rightarrow> mysql_row \<Rightarrow> 'm recommendation list \<Rightarrow> 'm recommendation list" where
  "mysql_analyzeTableAccessMethod t explainResult recs =
     (let recs1 =
        (if access_type explainResult = Some ''ALL''
         then push (finding t ''TABLE_SCAN'' HIGH ''tableScan''
                      [(''tableName'', str_or_null (table explainResult))]
                      [''review'', ''addIndexes'', ''coveringIndexes'']) recs
         else recs)
      in if access_type explainResult \<in> {Some ''index'', Some ''ALL''}
         then push (finding t ''ACCESS_TYPE'' MEDIUM ''accessType''
                      [(''type'', str_or_null (access_type explainResult))]
                      [''review'', ''indexCoverage'', ''restructure'']) recs1
         else recs1)"

definition mysql_analyzeJoinOperations ::
  "'m i18n \<Rightarrow> mysql_row \<Rightarrow> 'm recommendation list \<Rightarrow> 'm recommendation list" where
  "mysql_analyzeJoinOperations t explainResult recs =
     (let recs1 =
        (if select_type explainResult \<noteq> Some ''SIMPLE'' \<and> \<not> str_truthy (key explainResult)
         then push (finding t ''JOIN_OPTIMIZATION'' HIGH ''joinOptimization'' []
                      [''addIndexes'', ''reviewConditions'', ''denormalization'']) recs
         else recs)
      in if opt_includes (Extra explainResult) ''Using join buffer''
         then push (finding t ''JOIN_BUFFER'' MEDIUM ''joinBuffer'' []
                      [''addIndexes'', ''reviewOrder'', ''bufferSize'']) recs1
         else recs1)"

definition mysql_analyzeTemporaryStructures ::
  "'m i18n \<Rightarrow> mysql_row \<Rightarrow> 'm recommendation list \<Rightarrow> 'm recommendation list" where
  "mysql_analyzeTemporaryStructures t explainResult recs =
     (let recs1 =
        (if opt_includes (Extra explainResult) ''Using temporary''
         then push (finding t ''TEMP_TABLE'' MEDIUM ''tempTable'' []
                      [''review'', ''addIndexes'', ''restructure'']) recs
         else recs)
      in if opt_includes (Extra explainResult) ''Using filesort''
         then push (finding t ''FILE_SORT'' MEDIUM ''fileSort'' []
                      [''addIndexes'', ''bufferSize'', ''limitResults'']) recs1
         else recs1)"

definition mysql_analyzeIndexUsage ::
  "'m i18n \<Rightarrow> mysql_row \<Rightarrow> index_row list \<Rightarrow> 'm recommendation list \<Rightarrow> 'm recommendation list" where
  "mysql_analyzeIndexUsage t explainResult indexes recs =
     (let recs1 =
        (if str_truthy (possible_keys explainResult) \<and> \<not> str_truthy (key explainResult)
         then push (finding t ''UNUSED_INDEXES'' MEDIUM ''unusedIndexes'' []
                      [''analyze'', ''review'', ''forceIndex'']) recs
         else recs)
      in if str_truthy (key explainResult) \<and> str_truthy (key_len explainResult)
            \<and> 0 < length indexes
         then (let relevantIndex =
                     find (\<lambda>idx. Some (index_name idx) = key explainResult) indexes
               in if relevantIndex \<noteq> None \<and> ref explainResult \<noteq> Some ''const''
                  then push (finding t ''PARTIAL_INDEX_USAGE'' LOW ''partialIndex'' []
                               [''review'', ''covering'', ''analyze'']) recs1
                  else recs1)
         else recs1)"

definition mysql_analyzeTableStatistics ::
  "'m i18n \<Rightarrow> mysql_row \<Rightarrow> table_stat list \<Rightarrow> 'm recommendation list \<Rightarrow> 'm recommendation list" where
  "mysql_analyzeTableStatistics t explainResult tableStats recs =
     (if length tableStats = 0 then recs
      else
        (case find (\<lambda>stat. Some (table_name stat) = table explainResult) tableStats of
           None \<Rightarrow> recs
         | Some relevantTableStat \<Rightarrow>
             (let recs1 =
                (if js_gt (Num (null_number (table_rows relevantTableStat))) (Num 10000)
                    \<and> access_type explainResult = Some ''ALL''
                 then push (finding t ''LARGE_TABLE_SCAN'' HIGH ''largeTableScan''
                              [(''rows'', num_or_null (table_rows relevantTableStat))]
                              [''addIndexes'', ''partition'', ''optimize'']) recs
                 else recs);
                  indexRatio =
                    js_div (null_number (index_length relevantTableStat))
                           (null_number (data_length relevantTableStat))
              in if js_gt indexRatio (Num 0.5)
                 then push (finding t ''HIGH_INDEX_RATIO'' LOW ''highIndexRatio'' []
                              [''review'', ''remove'', ''covering'']) recs1
                 else recs1)))"

definition mysql_analyzeQueryStructure ::
  "'m i18n \<Rightarrow> mysql_row \<Rightarrow> 'm recommendation list \<Rightarrow> 'm recommendation list" where
  "mysql_analyzeQueryStructure t explainResult recs =
     (let recs1 =
        (if opt_includes (Extra explainResult) ''Using where''
         then push (finding t ''WHERE_CLAUSE'' LOW ''whereClause'' []
                      [''review'', ''addIndexes'', ''restructure'']) recs
         else recs)
      in if opt_includes (Extra explainResult) ''Using temporary''
            \<and> opt_includes (Extra explainResult) ''Using filesort''
         then push (finding t ''DISTINCT_OPTIMIZATION'' MEDIUM ''distinct'' []
                      [''groupBy'', ''covering'', ''review'']) recs1
         else recs1)"

definition mysql_analyzePartitioning ::
  "'m i18n \<Rightarrow> mysql_row \<Rightarrow> 'm recommendation list \<Rightarrow> 'm recommendation list" where
  "mysql_analyzePartitioning t explainResult recs =
     (if str_truthy (partitions explainResult) \<and> opt_includes (partitions explainResult) '',''
      then push (finding t ''PARTITION_PRUNING'' MEDIUM ''partitioning'' []
                   [''review'', ''ensure'', ''consider'']) recs
      else recs)"

definition mysql_analyzeSubqueries ::
  "'m i18n \<Rightarrow> mysql_row \<Rightarrow> 'm recommendation list \<Rightarrow> 'm recommendation list" where
  "mysql_analyzeSubqueries t explainResult recs =
     (let recs1 =
        (if select_type explainResult = Some ''DEPENDENT SUBQUERY''
         then push (finding t ''DEPENDENT_SUBQUERY'' HIGH ''dependentSubquery'' []
                      [''join'', ''rewrite'', ''indexes'']) recs
         else recs)
      in if select_type explainResult = Some ''SUBQUERY''
         then push (finding t ''SUBQUERY_OPTIMIZATION'' MEDIUM ''subquery'' []
                      [''join'', ''rewrite'', ''indexes'', ''limit'']) recs1
         else recs1)"

definition mysql_analyzeSortOperations ::
  "'m i18n \<Rightarrow> mysql_row \<Rightarrow> 'm recommendation list \<Rightarrow> 'm recommendation list" where
  "mysql_analyzeSortOperations t explainResult recs =
     (let recs1 =
        (if opt_includes (Extra explainResult) ''Using filesort''
            \<and> js_gt (Num (null_number (rows explainResult))) (Num 1000)
         then push (finding t ''LARGE_SORT'' HIGH ''largeSort''
                      [(''rows'', num_or_null (rows explainResult))]
                      [''indexSort'', ''limit'', ''buffer'']) recs
         else recs)
      in if opt_includes (Extra explainResult) ''Using filesort'' \<and> str_truthy (key explainResult)
         then push (finding t ''MULTI_COLUMN_SORT'' MEDIUM ''multiColumnSort'' []
                      [''composite'', ''order'', ''review'']) recs1
         else recs1)"

definition mysql_analyzeGroupOperations ::
  "'m i18n \<Rightarrow> mysql_row \<Rightarrow> 'm recommendation list \<Rightarrow> 'm recommendation list" where
  "mysql_analyzeGroupOperations t explainResult recs =
     (let recs1 =
        (if opt_includes (Extra explainResult) ''Using temporary''
            \<and> opt_includes (Extra explainResult) ''Using filesort''
            \<and> \<not> str_truthy (key explainResult)
         then push (finding t ''GROUP_BY_OPTIMIZATION'' HIGH ''groupBy'' []
                      [''index'', ''composite'', ''review'']) recs
         else recs)
      in if opt_includes (Extra explainResult) ''Using where''
            \<and> opt_includes (Extra explainResult) ''Using temporary''
            \<and> str_truthy (key explainResult)
         then push (finding t ''LOOSE_INDEX_SCAN'' MEDIUM ''looseIndexScan'' []
                      [''rewrite'', ''index'', ''min_max'']) recs1
         else recs1)"

text \<open>
  The ten rule calls of \<open>generateRecommendations\<close>, in their order. On an \<open>EXPLAIN\<close> row
  none of them raises.
\<close>

definition mysql_rules ::
  "'m i18n \<Rightarrow> mysql_row \<Rightarrow> table_stat list \<Rightarrow> index_row list \<Rightarrow> 'm rule list" where
  "mysql_rules t explainResult tableStats indexes =
     [returns (mysql_analyzeTableAccessMethod t explainResult),
      returns (mysql_analyzeJoinOperations t explainResult),
      returns (mysql_analyzeTemporaryStructures t explainResult),
      returns (mysql_analyzeIndexUsage t explainResult indexes),
      returns (mysql_analyzeTableStatistics t explainResult tableStats),
      returns (mysql_analyzeQueryStructure t explainResult),
      returns (mysql_analyzePartitioning t explainResult),
      returns (mysql_analyzeSubqueries t explainResult),
      returns (mysql_analyzeSortOperations t explainResult),
      returns (mysql_analyzeGroupOperations t explainResult)]"

text \<open>
  \<open>generateRecommendations\<close>: an \<open>undefined\<close> plan returns the empty array at once;
  otherwise the rules run inside \<open>try\<close>, an error is caught (and reported by
  \<open>logger.warn\<close>, which only prints), and what the array holds is prioritized and returned.
\<close>

definition mysql_generateRecommendations ::
  "'m i18n \<Rightarrow> mysql_row option \<Rightarrow> table_stat list \<Rightarrow> index_row list \<Rightarrow> 'm recommendation list" where
  "mysql_generateRecommendations t explainResult tableStats indexes =
     (case explainResult of
        None \<Rightarrow> []
      | Some row \<Rightarrow>
          (case run_rules (mysql_rules t row tableStats indexes) [] of
             (Some error, recommendations) \<Rightarrow> prioritized mysql_priorityTypes recommendations
           | (None, recommendations) \<Rightarrow> prioritized mysql_priorityTypes recommendations))"

section \<open>The PostgreSQL analyzer: data\<close>

text \<open>
  The properties of a plan object that the rules read: \<open>Node_Type\<close> and, written with a
  space in the source (\<open>plan['Relation Name']\<close>), the others. A property that is missing
  reads as \<open>undefined\<close> (\<open>None\<close>, \<open>JUndefined\<close>). \<open>Plans\<close> is the array of child plans, empty
  when the property is missing.
\<close>

record plan_fields =
  Node_Type :: "string option"
  Relation_Name :: "string option"
  Actual_Rows :: "real option"
  Index_Cond :: "string option"
  Hash_Batches :: "real option"
  Temporary_File_Usage :: jsval
  Hash_Cond :: "string option"
  Planning_Time :: "real option"
  Workers_Planned :: "real option"
  Total_Cost :: "real option"
  Partitions_Removed :: "real option"
  CTE_Materialized :: jsval
  Peak_Memory_Usage :: "real option"
  Peak_Memory_Allowed :: "real option"
  Actual_Loops :: "real option"

datatype plan_node = PlanNode (node_fields: plan_fields) (Plans: "plan_node list")

text \<open>The object that \<open>EXPLAIN (FORMAT JSON)\<close> returns: the root plan under \<open>Plan\<close>.\<close>

record pg_explain =
  Plan :: "plan_node option"

section \<open>The PostgreSQL analyzer: rules\<close>

text \<open>
  Every rule starts by reading a property of \<open>plan\<close>, which raises a TypeError when
  \<open>plan\<close> is \<open>undefined\<close>; two rules call \<open>includes\<close> on a property and raise when that
  property is missing.
\<close>

definition pg_analyzeScanMethods :: "'m i18n \<Rightarrow> plan_node option \<Rightarrow> 'm rule" where
  "pg_analyzeScanMethods t plan recs =
     (case plan of
        None \<Rightarrow> (Some TypeError, recs)
      | Some node \<Rightarrow>
          (let p = node_fields node;
               recs1 =
                 (if Node_Type p = Some ''Seq Scan''
                  then push (finding t ''SEQUENTIAL_SCAN'' HIGH ''sequentialScan''
                               [(''tableName'', str_or_undefined (Relation_Name p))]
                               [''createIndex'', ''analyzeTable'', ''reviewWhere'']) recs
                  else recs)
           in (None,
               if Node_Type p = Some ''Index Scan''
                  \<and> js_gt (undefined_number (Actual_Rows p)) (Num 1000)
                  \<and> Index_Cond p = None
               then push (finding t ''INEFFICIENT_INDEX_SCAN'' MEDIUM ''inefficientIndexScan'' []
                            [''reviewIndex'', ''considerBitmap'', ''checkStats'']) recs1
               else recs1)))"

definition pg_analyzeJoinOperations :: "'m i18n \<Rightarrow> plan_node option \<Rightarrow> 'm rule" where
  "pg_analyzeJoinOperations t plan recs =
     (case plan of
        None \<Rightarrow> (Some TypeError, recs)
      | Some node \<Rightarrow>
          (let p = node_fields node;
               recs1 =
                 (if Node_Type p = Some ''Nested Loop''
                     \<and> js_gt (undefined_number (Actual_Rows p)) (Num 1000)
                  then push (finding t ''EXPENSIVE_NESTED_LOOP'' HIGH ''expensiveNestedLoop'' []
                               [''createIndex'', ''useHash'', ''rewriteJoin'']) recs
                  else recs)
           in (None,
               if Node_Type p = Some ''Hash Join''
                  \<and> js_gt (undefined_number (Hash_Batches p)) (Num 1)
               then push (finding t ''HASH_SPILL'' MEDIUM ''hashSpill'' []
                            [''increaseMemory'', ''optimizeJoin'', ''partitionData'']) recs1
               else recs1)))"

definition pg_analyzeTemporaryStructures :: "'m i18n \<Rightarrow> plan_node option \<Rightarrow> 'm rule" where
  "pg_analyzeTemporaryStructures t plan recs =
     (case plan of
        None \<Rightarrow> (Some TypeError, recs)
      | Some node \<Rightarrow>
          (None,
           if truthy (Temporary_File_Usage (node_fields node))
           then push (finding t ''TEMP_FILES'' HIGH ''tempFiles'' []
                        [''increaseMemory'', ''optimizeQuery'', ''useIndexes'']) recs
           else recs))"

definition pg_analyzeIndexUsage :: "'m i18n \<Rightarrow> plan_node option \<Rightarrow> 'i list \<Rightarrow> 'm rule" where
  "pg_analyzeIndexUsage t plan indexes recs =
     (case plan of
        None \<Rightarrow> (Some TypeError, recs)
      | Some node \<Rightarrow>
          (let p = node_fields node
           in if Node_Type p = Some ''Hash Join''
              then (case Hash_Cond p of
                      None \<Rightarrow> (Some TypeError, recs)
                    | Some cond \<Rightarrow>
                        (None,
                         if \<not> str_includes cond ''=''
                         then push (finding t ''MISSING_JOIN_INDEX'' HIGH ''missingJoinIndex'' []
                                      [''createIndex'', ''analyzeJoin'', ''considerFK'']) recs
                         else recs))
              else (None, recs)))"

definition pg_analyzeTableStatistics :: "'m i18n \<Rightarrow> plan_node option \<Rightarrow> 's list \<Rightarrow> 'm rule" where
  "pg_analyzeTableStatistics t plan tableStats recs =
     (case plan of
        None \<Rightarrow> (Some TypeError, recs)
      | Some node \<Rightarrow>
          (None,
           if js_gt (undefined_number (Planning_Time (node_fields node))) (Num 1000)
           then push (finding t ''OUTDATED_STATS'' MEDIUM ''outdatedStats'' []
                        [''runAnalyze'', ''autoVacuum'', ''monitoring'']) recs
           else recs))"

definition pg_analyzeParallelExecution :: "'m i18n \<Rightarrow> plan_node option \<Rightarrow> 'm rule" where
  "pg_analyzeParallelExecution t plan recs =
     (case plan of
        None \<Rightarrow> (Some TypeError, recs)
      | Some node \<Rightarrow>
          (let p = node_fields node
           in (None,
               if \<not> num_truthy (Workers_Planned p)
                  \<and> js_gt (undefined_number (Total_Cost p)) (Num 100000)
               then push (finding t ''MISSED_PARALLEL'' MEDIUM ''missedParallel'' []
                            [''enableParallel'', ''adjustSettings'', ''reviewQuery'']) recs
               else recs)))"

definition pg_analyzePartitioning :: "'m i18n \<Rightarrow> plan_node option \<Rightarrow> 'm rule" where
  "pg_analyzePartitioning t plan recs =
     (case plan of
        None \<Rightarrow> (Some TypeError, recs)
      | Some node \<Rightarrow>
          (let p = node_fields node
           in if Partitions_Removed p = Some 0
              then (case Node_Type p of
                      None \<Rightarrow> (Some TypeError, recs)
                    | Some nodeType \<Rightarrow>
                        (None,
                         if str_includes nodeType ''Partition''
                         then push (finding t ''INEFFECTIVE_PARTITION'' HIGH ''ineffectivePartition'' []
                                      [''reviewStrategy'', ''addConstraints'', ''optimizeKeys'']) recs
                         else recs))
              else (None, recs)))"

definition pg_analyzeCTEUsage :: "'m i18n \<Rightarrow> plan_node option \<Rightarrow> 'm rule" where
  "pg_analyzeCTEUsage t plan recs =
     (case plan of
        None \<Rightarrow> (Some TypeError, recs)
      | Some node \<Rightarrow>
          (let p = node_fields node
           in (None,
               if Node_Type p = Some ''CTE Scan''
                  \<and> js_gt (undefined_number (Actual_Rows p)) (Num 1)
                  \<and> \<not> truthy (CTE_Materialized p)
               then push (finding t ''CTE_MATERIALIZATION'' MEDIUM ''cteMaterialization'' []
                            [''materialize'', ''analyzeUsage'', ''considerTemp'']) recs
               else recs)))"

definition pg_analyzeAggregationOperations :: "'m i18n \<Rightarrow> plan_node option \<Rightarrow> 'm rule" where
  "pg_analyzeAggregationOperations t plan recs =
     (case plan of
        None \<Rightarrow> (Some TypeError, recs)
      | Some node \<Rightarrow>
          (let p = node_fields node;
               recs1 =
                 (if Node_Type p = Some ''Group Aggregate''
                     \<and> js_gt (undefined_number (Actual_Rows p)) (Num 1000)
                  then push (finding t ''INEFFICIENT_AGGREGATE'' MEDIUM ''inefficientAggregate'' []
                               [''useHash'', ''addIndexes'', ''restructure'']) recs
                  else recs)
           in (None,
               if Node_Type p = Some ''Hash Aggregate''
                  \<and> js_gt (undefined_number (Peak_Memory_Usage p))
                           (undefined_number (Peak_Memory_Allowed p))
               then push (finding t ''AGGREGATE_SPILL'' HIGH ''aggregateSpill'' []
                            [''increaseWork'', ''limitGroups'', ''useIndexes'']) recs1
               else recs1)))"

definition pg_analyzeMaterialization :: "'m i18n \<Rightarrow> plan_node option \<Rightarrow> 'm rule" where
  "pg_analyzeMaterialization t plan recs =
     (case plan of
        None \<Rightarrow> (Some TypeError, recs)
      | Some node \<Rightarrow>
          (let p = node_fields node
           in (None,
               if js_gt (undefined_number (Actual_Loops p)) (Num 1)
                  \<and> Node_Type p \<noteq> Some ''Materialize''
               then push (finding t ''MISSED_MATERIALIZATION'' MEDIUM ''missedMaterialization'' []
                            [''addMaterialize'', ''analyzeMemory'', ''considerCTE'']) recs
               else recs)))"

text \<open>
  The ten rule calls of \<open>generateRecommendations\<close>, in their order, each on
  \<open>explainResult.Plan\<close>, the root of the plan.
\<close>

definition pg_rules ::
  "'m i18n \<Rightarrow> plan_node option \<Rightarrow> 's list \<Rightarrow> 'i list \<Rightarrow> 'm rule list" where
  "pg_rules t plan tableStats indexes =
     [pg_analyzeScanMethods t plan,
      pg_analyzeJoinOperations t plan,
      pg_analyzeTemporaryStructures t plan,
      pg_analyzeIndexUsage t plan indexes,
      pg_analyzeTableStatistics t plan tableStats,
      pg_analyzeParallelExecution t plan,
      pg_analyzePartitioning t plan,
      pg_analyzeCTEUsage t plan,
      pg_analyzeAggregationOperations t plan,
      pg_analyzeMaterialization t plan]"

definition pg_generateRecommendations ::
  "'m i18n \<Rightarrow> pg_explain option \<Rightarrow> 's list \<Rightarrow> 'i list \<Rightarrow> 'm recommendation list" where
  "pg_generateRecommendations t explainResult tableStats indexes =
     (case explainResult of
        None \<Rightarrow> []
      | Some result \<Rightarrow>
          (case run_rules (pg_rules t (Plan result) tableStats indexes) [] of
             (Some error, recommendations) \<Rightarrow> prioritized pg_priorityTypes recommendations
           | (None, recommendations) \<Rightarrow> prioritized pg_priorityTypes recommendations))"

text \<open>
  \<open>analyzePlanNode\<close>, the helper that walks nested plans: three rules at the node, then
  the children in their order. No method of the class calls it.
\<close>

fun analyzePlanNode :: "'m i18n \<Rightarrow> plan_node \<Rightarrow> 'm rule"
  and analyzePlanNodes :: "'m i18n \<Rightarrow> plan_node list \<Rightarrow> 'm rule" where
  "analyzePlanNode t (PlanNode p children) recs =
     (case run_rules [pg_analyzeScanMethods t (Some (PlanNode p children)),
                      pg_analyzeJoinOperations t (Some (PlanNode p children)),
                      pg_analyzeTemporaryStructures t (Some (PlanNode p children))] recs of
        (Some e, recs') \<Rightarrow> (Some e, recs')
      | (None, recs') \<Rightarrow> analyzePlanNodes t children recs')"
| "analyzePlanNodes t [] recs = (None, recs)"
| "analyzePlanNodes t (childPlan # rest) recs =
     (case analyzePlanNode t childPlan recs of
        (Some e, recs') \<Rightarrow> (Some e, recs')
      | (None, recs') \<Rightarrow> analyzePlanNodes t rest recs')"

text \<open>The nodes of a plan in depth-first pre-order.\<close>

fun preorder :: "plan_node \<Rightarrow> plan_node list"
  and preorder_list :: "plan_node list \<Rightarrow> plan_node list" where
  "preorder (PlanNode p children) = PlanNode p children # preorder_list children"
| "preorder_list [] = []"
| "preorder_list (c # cs) = preorder c @ preorder_list cs"

text \<open>What the three rules of \<open>analyzePlanNode\<close> push at one node.\<close>

definition node_findings :: "'m i18n \<Rightarrow> plan_node \<Rightarrow> 'm recommendation list" where
  "node_findings t node =
     snd (run_rules [pg_analyzeScanMethods t (Some node),
                     pg_analyzeJoinOperations t (Some node),
                     pg_analyzeTemporaryStructures t (Some node)] [])"

section \<open>The analysis coordinator\<close>

text \<open>
  The database behind the driver, as far as \<open>analyze\<close> can observe it: whether the
  connection is established, and what each of the three queries gives, an error or its
  rows. The queries are issued one after the other, each once.
\<close>

record ('x, 's, 'i) database =
  connect_outcome :: "js_error option"
  explain_outcome :: "string \<Rightarrow> js_error + 'x"
  statistics_outcome :: "string option \<Rightarrow> js_error + 's list"
  indexes_outcome :: "string option \<Rightarrow> js_error + 'i list"

text \<open>
  What \<open>analyze\<close> asks of the two drivers, in order. For MySQL:
  \<open>mysql.createConnection\<close> and, at the end, \<open>connection.end()\<close>. For PostgreSQL:
  \<open>new Pool\<close>, \<open>pool.connect()\<close> and, at the end, \<open>client.release()\<close>. In between, the
  three queries, with the statement text or the schema parameter sent. \<open>CreateConnection\<close>
  and \<open>PoolConnect\<close> stand for a call that gave a connection, \<open>ConnectRefused\<close> for one
  that was rejected. \<open>PoolEnd\<close> is \<open>pool.end()\<close>, which \<open>getSchemas\<close> and
  \<open>testConnection\<close> of the command-line program call on their pools. An error raised by
  the closing call is caught and only reported.
\<close>

datatype db_call =
    CreateConnection
  | NewPool
  | PoolConnect
  | ConnectRefused
  | Explain string
  | Statistics "string option"
  | Indexes "string option"
  | ConnectionEnd
  | ClientRelease
  | PoolEnd

text \<open>
  What the drivers hold after a call, as their documentation states it. A MySQL
  connection is open from \<open>createConnection\<close> to \<open>connection.end()\<close>. A PostgreSQL pool
  exists from \<open>new Pool\<close>; \<open>pool.connect()\<close> opens a session to the server and checks a
  client out; \<open>client.release()\<close> gives the client back to the pool, which keeps the
  session open for the next use; \<open>pool.end()\<close> closes the sessions and the pool.
\<close>

datatype resource = Connection | Pool | Client | Session

fun after_call :: "db_call \<Rightarrow> resource set \<Rightarrow> resource set" where
  "after_call CreateConnection held = insert Connection held"
| "after_call ConnectionEnd held = held - {Connection}"
| "after_call NewPool held = insert Pool held"
| "after_call PoolConnect held = insert Client (insert Session held)"
| "after_call ClientRelease held = held - {Client}"
| "after_call PoolEnd held = held - {Pool, Session}"
| "after_call ConnectRefused held = held"
| "after_call (Explain sql) held = held"
| "after_call (Statistics p) held = held"
| "after_call (Indexes p) held = held"

definition still_held :: "db_call list \<Rightarrow> resource set" where
  "still_held calls = foldl (\<lambda>held call. after_call call held) {} calls"

text \<open>The part of \<open>this.config\<close> that \<open>analyze\<close> reads.\<close>

record config =
  database :: "string option"
  schema :: "string option"

record ('p, 's, 'i, 'm) analysis_result =
  query :: string
  executionPlan :: "'p option"
  tableStatistics :: "'s list"
  indexes :: "'i list"
  recommendations :: "'m recommendation list"

text \<open>The validation at the head of \<open>analyze\<close>; it gives the trimmed query.\<close>

definition validateQuery :: "jsval \<Rightarrow> js_error + string" where
  "validateQuery queryArg =
     (case queryArg of
        JStr s \<Rightarrow>
          if s = [] then Inl (Error ''Invalid query provided'')
          else (let trimmedQuery = trim s
                in if trimmedQuery = [] then Inl (Error ''Empty query provided'')
                   else if \<not> startsWith (toLowerCase trimmedQuery) ''select''
                   then Inl (Error ''Only SELECT queries can be analyzed'')
                   else Inr trimmedQuery)
      | _ \<Rightarrow> Inl (Error ''Invalid query provided''))"

text \<open>
  A metadata query inside its own \<open>try\<close>: on an error the collection stays the empty
  array it was initialised with.
\<close>

definition rows_or_empty :: "js_error + 'a list \<Rightarrow> 'a list" where
  "rows_or_empty outcome = (case outcome of Inl error \<Rightarrow> [] | Inr result \<Rightarrow> result)"

text \<open>
  MySQL. The body of the outer \<open>try\<close> once the connection is there, with the calls it
  makes; \<open>rows[0]\<close> of an empty result is \<open>undefined\<close>.
\<close>

definition mysql_analysis ::
  "config \<Rightarrow> 'm i18n \<Rightarrow> (mysql_row list, table_stat, index_row) database \<Rightarrow> jsval \<Rightarrow>
     (js_error + (mysql_row, table_stat, index_row, 'm) analysis_result) \<times> db_call list" where
  "mysql_analysis cfg t db queryArg =
     (case validateQuery queryArg of
        Inl error \<Rightarrow> (Inl error, [])
      | Inr trimmedQuery \<Rightarrow>
          (case explain_outcome db (''EXPLAIN '' @ trimmedQuery) of
             Inl error \<Rightarrow>
               (Inl (Prefixed ''Failed to get execution plan: '' error),
                [Explain (''EXPLAIN '' @ trimmedQuery)])
           | Inr result \<Rightarrow>
               (let explainResult = (case result of [] \<Rightarrow> None | row # _ \<Rightarrow> Some row);
                    tableStats = rows_or_empty (statistics_outcome db (database cfg));
                    indexList = rows_or_empty (indexes_outcome db (database cfg))
                in (Inr \<lparr>query = trimmedQuery, executionPlan = explainResult,
                         tableStatistics = tableStats, indexes = indexList,
                         recommendations =
                           mysql_generateRecommendations t explainResult tableStats indexList\<rparr>,
                    [Explain (''EXPLAIN '' @ trimmedQuery), Statistics (database cfg),
                     Indexes (database cfg)]))))"

text \<open>
  \<open>analyze\<close>: when the connection cannot be opened the error is rethrown with the
  analyzer's prefix; otherwise the body runs, an error of the body is rethrown with the
  prefix, and \<open>finally\<close> calls \<open>connection.end()\<close>.
\<close>

definition mysql_analyze ::
  "config \<Rightarrow> 'm i18n \<Rightarrow> (mysql_row list, table_stat, index_row) database \<Rightarrow> jsval \<Rightarrow>
     (js_error + (mysql_row, table_stat, index_row, 'm) analysis_result) \<times> db_call list" where
  "mysql_analyze cfg t db queryArg =
     (case connect_outcome db of
        Some error \<Rightarrow> (Inl (Prefixed ''MySQL Analysis Error: '' error), [ConnectRefused])
      | None \<Rightarrow>
          (case mysql_analysis cfg t db queryArg of
             (Inl error, calls) \<Rightarrow>
               (Inl (Prefixed ''MySQL Analysis Error: '' error),
                CreateConnection # calls @ [ConnectionEnd])
           | (Inr result, calls) \<Rightarrow> (Inr result, CreateConnection # calls @ [ConnectionEnd])))"

text \<open>The rows the PostgreSQL analyzer selects from \<open>pg_stat_user_tables\<close> and \<open>pg_indexes\<close>.\<close>

record pg_table_stat =
  stat_schemaname :: string
  stat_table_name :: string
  stat_table_rows :: real
  total_bytes :: real
  index_bytes :: real

record pg_index =
  index_schemaname :: string
  pg_index_table_name :: string
  pg_index_name :: string
  index_definition :: string

text \<open>
  PostgreSQL. A row of the \<open>EXPLAIN\<close> result holds the JSON array of plans under
  \<open>QUERY PLAN\<close>; \<open>result.rows[0]['QUERY PLAN'][0]\<close> raises a TypeError when there is no
  row or no such column, and is \<open>undefined\<close> when the array is empty.
\<close>

record pg_explain_row =
  QUERY_PLAN :: "pg_explain list option"

definition pg_explainResult :: "pg_explain_row list \<Rightarrow> js_error + pg_explain option" where
  "pg_explainResult result =
     (case result of
        [] \<Rightarrow> Inl TypeError
      | row # _ \<Rightarrow>
          (case QUERY_PLAN row of
             None \<Rightarrow> Inl TypeError
           | Some [] \<Rightarrow> Inr None
           | Some (plan # _) \<Rightarrow> Inr (Some plan)))"

definition pg_schema :: "config \<Rightarrow> string" where
  "pg_schema cfg =
     (case schema cfg of None \<Rightarrow> ''public'' | Some s \<Rightarrow> if s = [] then ''public'' else s)"

definition pg_explain_statement :: "string \<Rightarrow> string" where
  "pg_explain_statement trimmedQuery =
     ''EXPLAIN (FORMAT JSON, ANALYZE, VERBOSE, BUFFERS, COSTS, TIMING) '' @ trimmedQuery"

definition pg_analysis ::
  "config \<Rightarrow> 'm i18n \<Rightarrow> (pg_explain_row list, 's, 'i) database \<Rightarrow> jsval \<Rightarrow>
     (js_error + (pg_explain, 's, 'i, 'm) analysis_result) \<times> db_call list" where
  "pg_analysis cfg t db queryArg =
     (case validateQuery queryArg of
        Inl error \<Rightarrow> (Inl error, [])
      | Inr trimmedQuery \<Rightarrow>
          (case (case explain_outcome db (pg_explain_statement trimmedQuery) of
                   Inl error \<Rightarrow> Inl error
                 | Inr result \<Rightarrow> pg_explainResult result) of
             Inl error \<Rightarrow>
               (Inl (Prefixed ''Failed to get execution plan: '' error),
                [Explain (pg_explain_statement trimmedQuery)])
           | Inr explainResult \<Rightarrow>
               (let tableStats = rows_or_empty (statistics_outcome db (Some (pg_schema cfg)));
                    indexList = rows_or_empty (indexes_outcome db (Some (pg_schema cfg)))
                in (Inr \<lparr>query = trimmedQuery, executionPlan = explainResult,
                         tableStatistics = tableStats, indexes = indexList,
                         recommendations =
                           pg_generateRecommendations t explainResult tableStats indexList\<rparr>,
                    [Explain (pg_explain_statement trimmedQuery),
                     Statistics (Some (pg_schema cfg)), Indexes (Some (pg_schema cfg))]))))"

text \<open>
  \<open>analyze\<close> for PostgreSQL: the pool is created first, then a client is asked of it;
  \<open>finally\<close> calls \<open>client.release()\<close> when there is a client. Nothing calls \<open>pool.end()\<close>.
\<close>

definition pg_analyze ::
  "config \<Rightarrow> 'm i18n \<Rightarrow> (pg_explain_row list, 's, 'i) database \<Rightarrow> jsval \<Rightarrow>
     (js_error + (pg_explain, 's, 'i, 'm) analysis_result) \<times> db_call list" where
  "pg_analyze cfg t db queryArg =
     (case connect_outcome db of
        Some error \<Rightarrow>
          (Inl (Prefixed ''PostgreSQL Analysis Error: '' error), [NewPool, ConnectRefused])
      | None \<Rightarrow>
          (case pg_analysis cfg t db queryArg of
             (Inl error, calls) \<Rightarrow>
               (Inl (Prefixed ''PostgreSQL Analysis Error: '' error),
                NewPool # PoolConnect # calls @ [ClientRelease])
           | (Inr result, calls) \<Rightarrow>
               (Inr result, NewPool # PoolConnect # calls @ [ClientRelease])))"

section \<open>Sample data\<close>

text \<open>A recommendation with given type and severity whose texts are plain strings.\<close>

definition sample_recommendation :: "string \<Rightarrow> severity \<Rightarrow> string recommendation" where
  "sample_recommendation ty sev =
     \<lparr>type = ty, severity = sev, message = ty, suggestion = ''s'',
      details = \<lparr>impact = ''i'', implementation = []\<rparr>\<rparr>"

text \<open>A store whose array \<open>0\<close> holds a MEDIUM finding followed by a HIGH one.\<close>

definition sample_store :: "string store" where
  "sample_store =
     (\<lambda>r. [])(0 := [sample_recommendation ''ACCESS_TYPE'' MEDIUM,
                       sample_recommendation ''TABLE_SCAN'' HIGH])"

definition sample_findings :: "string recommendation list" where
  "sample_findings =
     [sample_recommendation ''WHERE_CLAUSE'' LOW,
      sample_recommendation ''FILE_SORT'' MEDIUM,
      sample_recommendation ''LARGE_TABLE_SCAN'' HIGH,
      sample_recommendation ''TEMP_TABLE'' MEDIUM,
      sample_recommendation ''TABLE_SCAN'' HIGH]"

text \<open>An \<open>EXPLAIN\<close> row for a full scan of \<open>orders\<close>, and the statistics of that table.\<close>

definition orders_row :: mysql_row where
  "orders_row =
     \<lparr>access_type = Some ''ALL'', table = Some ''orders'', select_type = Some ''SIMPLE'',
      key = None, Extra = None, possible_keys = None, key_len = None, ref = None,
      partitions = None, rows = Some 50000\<rparr>"

definition orders_stat :: table_stat where
  "orders_stat =
     \<lparr>table_name = ''orders'', table_rows = Some 50000, data_length = Some 1000000,
      index_length = Some 600000\<rparr>"

text \<open>A plan object without any of the properties the rules read.\<close>

definition no_fields :: plan_fields where
  "no_fields =
     \<lparr>Node_Type = None, Relation_Name = None, Actual_Rows = None, Index_Cond = None,
      Hash_Batches = None, Temporary_File_Usage = JUndefined, Hash_Cond = None,
      Planning_Time = None, Workers_Planned = None, Total_Cost = None,
      Partitions_Removed = None, CTE_Materialized = JUndefined, Peak_Memory_Usage = None,
      Peak_Memory_Allowed = None, Actual_Loops = None\<rparr>"

text \<open>A sequential scan of \<open>orders\<close>, and a hash join in two batches over it.\<close>

definition seq_scan :: plan_node where
  "seq_scan =
     PlanNode (no_fields\<lparr>Node_Type := Some ''Seq Scan'', Relation_Name := Some ''orders''\<rparr>) []"

definition hash_join_over_scan :: plan_node where
  "hash_join_over_scan =
     PlanNode (no_fields\<lparr>Node_Type := Some ''Hash Join'', Hash_Batches := Some 2,
                           Hash_Cond := Some ''(o.customer_id = c.id)''\<rparr>) [seq_scan]"

text \<open>A nested loop, with nothing for the rules to report, over the sequential scan.\<close>

definition nested_loop_over_scan :: plan_node where
  "nested_loop_over_scan = PlanNode (no_fields\<lparr>Node_Type := Some ''Nested Loop''\<rparr>) [seq_scan]"

text \<open>The same join when the plan object carries no \<open>Hash Cond\<close>.\<close>

definition hash_join_no_cond :: plan_node where
  "hash_join_no_cond =
     PlanNode (no_fields\<lparr>Node_Type := Some ''Hash Join'', Hash_Batches := Some 2\<rparr>) [seq_scan]"


text \<open>
  A database that accepts the connection and answers every query, one that refuses the
  connection, and one whose two metadata queries fail.
\<close>

definition answering :: "'x \<Rightarrow> 's list \<Rightarrow> 'i list \<Rightarrow> ('x, 's, 'i) database" where
  "answering plan stats idx =
     \<lparr>connect_outcome = None, explain_outcome = (\<lambda>sql. Inr plan),
      statistics_outcome = (\<lambda>p. Inr stats), indexes_outcome = (\<lambda>p. Inr idx)\<rparr>"

definition unreachable :: "'x \<Rightarrow> ('x, 's, 'i) database" where
  "unreachable plan =
     (answering plan [] [])\<lparr>connect_outcome := Some (Error ''connect ECONNREFUSED'')\<rparr>"

definition without_metadata :: "'x \<Rightarrow> ('x, 's, 'i) database" where
  "without_metadata plan =
     (answering plan [] [])
       \<lparr>statistics_outcome := (\<lambda>p. Inl (Error ''permission denied'')),
        indexes_outcome := (\<lambda>p. Inl (Error ''permission denied''))\<rparr>"

definition sample_config :: config where
  "sample_config = \<lparr>database = Some ''shop'', schema = None\<rparr>"

text \<open>
  The two kinds of database with sample contents: a MySQL schema \<open>shop\<close> with the table
  \<open>orders\<close>, and a PostgreSQL database that answers \<open>EXPLAIN\<close> with a given plan.
\<close>

definition shop_mysql :: "(mysql_row list, table_stat, index_row) database" where
  "shop_mysql = answering [orders_row] [orders_stat] []"

definition shop_mysql_down :: "(mysql_row list, table_stat, index_row) database" where
  "shop_mysql_down = unreachable [orders_row]"

definition shop_mysql_bare :: "(mysql_row list, table_stat, index_row) database" where
  "shop_mysql_bare = without_metadata [orders_row]"

definition plan_response :: "plan_node \<Rightarrow> pg_explain_row list" where
  "plan_response plan = [\<lparr>QUERY_PLAN = Some [\<lparr>Plan = Some plan\<rparr>]\<rparr>]"

definition shop_pg :: "plan_node \<Rightarrow> (pg_explain_row list, pg_table_stat, pg_index) database" where
  "shop_pg plan = answering (plan_response plan) [] []"

definition shop_pg_down :: "(pg_explain_row list, pg_table_stat, pg_index) database" where
  "shop_pg_down = unreachable (plan_response seq_scan)"

definition shop_pg_bare :: "plan_node \<Rightarrow> (pg_explain_row list, pg_table_stat, pg_index) database" where
  "shop_pg_bare plan = without_metadata (plan_response plan)"

section \<open>Properties of the JavaScript built-ins\<close>

lemma indexOf_ge: "-1 \<le> indexOf xs x"
  by (induction xs) (auto simp: Let_def)

lemma indexOf_absent: "indexOf xs x = -1 \<longleftrightarrow> x \<notin> set xs"
proof (induction xs)
  case Nil
  show ?case by simp
next
  case (Cons y ys)
  have "-1 \<le> indexOf ys x" by (rule indexOf_ge)
  with Cons show ?case by (auto simp: Let_def)
qed

lemma indexOf_lt_length: "x \<in> set xs \<Longrightarrow> 0 \<le> indexOf xs x \<and> indexOf xs x < int (length xs)"
proof (induction xs)
  case Nil
  then show ?case by simp
next
  case (Cons y ys)
  show ?case
  proof (cases "y = x")
    case True
    then show ?thesis by simp
  next
    case False
    with Cons.prems have "x \<in> set ys" by simp
    with Cons.IH have "0 \<le> indexOf ys x \<and> indexOf ys x < int (length ys)" by simp
    with False show ?thesis by (simp add: Let_def)
  qed
qed

lemma indexOf_nth: "x \<in> set xs \<Longrightarrow> xs ! nat (indexOf xs x) = x"
proof (induction xs)
  case Nil
  then show ?case by simp
next
  case (Cons y ys)
  show ?case
  proof (cases "y = x")
    case True
    then show ?thesis by simp
  next
    case False
    with Cons.prems have mem: "x \<in> set ys" by simp
    from indexOf_lt_length [OF mem] have nn: "0 \<le> indexOf ys x" by simp
    then have "nat (indexOf ys x + 1) = Suc (nat (indexOf ys x))" by simp
    with False nn Cons.IH [OF mem] show ?thesis by (simp add: Let_def)
  qed
qed

lemma indexOf_first: "j < nat (indexOf xs x) \<Longrightarrow> x \<in> set xs \<Longrightarrow> xs ! j \<noteq> x"
proof (induction xs arbitrary: j)
  case Nil
  then show ?case by simp
next
  case (Cons y ys)
  show ?case
  proof (cases "y = x")
    case True
    with Cons.prems show ?thesis by simp
  next
    case False
    with Cons.prems have mem: "x \<in> set ys" by simp
    from indexOf_lt_length [OF mem] have nn: "0 \<le> indexOf ys x" by simp
    then have step: "nat (indexOf ys x + 1) = Suc (nat (indexOf ys x))" by simp
    have neq: "indexOf ys x \<noteq> -1" using nn by simp
    show ?thesis
    proof (cases j)
      case 0
      with False show ?thesis by simp
    next
      case (Suc j')
      with Cons.prems False neq step have "j' < nat (indexOf ys x)" by (simp add: Let_def)
      from Cons.IH [OF this mem] Suc show ?thesis by simp
    qed
  qed
qed

lemma mset_insort_by: "mset (insort_by cmp x ys) = add_mset x (mset ys)"
  by (induction ys) auto

lemma set_insort_by: "set (insort_by cmp x ys) = insert x (set ys)"
  by (induction ys) auto

lemma mset_js_sort: "mset (js_sort cmp xs) = mset xs"
  by (induction xs) (simp_all add: js_sort_def mset_insort_by)

lemma js_sort_Cons: "js_sort cmp (x # xs) = insort_by cmp x (js_sort cmp xs)"
  by (simp add: js_sort_def)

lemma js_sort_Nil: "js_sort cmp [] = []"
  by (simp add: js_sort_def)

lemma dropWhile_all_iff: "(\<forall>x\<in>set (dropWhile P xs). P x) \<longleftrightarrow> (\<forall>x\<in>set xs. P x)"
proof
  assume all: "\<forall>x\<in>set (dropWhile P xs). P x"
  have "dropWhile P xs = []"
  proof (rule ccontr)
    assume ne: "dropWhile P xs \<noteq> []"
    then have "\<not> P (hd (dropWhile P xs))" by (rule hd_dropWhile)
    moreover from ne have "hd (dropWhile P xs) \<in> set (dropWhile P xs)" by simp
    ultimately show False using all by blast
  qed
  then show "\<forall>x\<in>set xs. P x" by (simp add: dropWhile_eq_Nil_conv)
next
  assume "\<forall>x\<in>set xs. P x"
  then show "\<forall>x\<in>set (dropWhile P xs). P x" by (auto dest: set_dropWhileD)
qed

lemma trim_blank_iff: "trim s = [] \<longleftrightarrow> (\<forall>c\<in>set s. isWhiteSpace c)"
  by (simp add: trim_def dropWhile_eq_Nil_conv dropWhile_all_iff)

section \<open>Properties of the comparator\<close>

lemma severityOrder_inj: "severityOrder a = severityOrder b \<longleftrightarrow> a = b"
  by (cases a; cases b) simp_all

lemma type_rank_listed: "ty \<in> set pt \<Longrightarrow> type_rank pt ty = enat (nat (indexOf pt ty))"
  by (simp add: type_rank_def indexOf_absent)

lemma type_rank_unlisted: "ty \<notin> set pt \<Longrightarrow> type_rank pt ty = \<infinity>"
  by (simp add: type_rank_def indexOf_absent)

lemma type_rank_eq_iff:
  "type_rank pt a = type_rank pt b \<longleftrightarrow> indexOf pt a = indexOf pt b"
proof -
  have "-1 \<le> indexOf pt a" "-1 \<le> indexOf pt b" by (rule indexOf_ge)+
  then show ?thesis by (auto simp: type_rank_def)
qed

lemma type_rank_less_iff:
  "type_rank pt a < type_rank pt b \<longleftrightarrow>
     indexOf pt a \<noteq> -1 \<and> (indexOf pt b = -1 \<or> indexOf pt a < indexOf pt b)"
proof -
  have "-1 \<le> indexOf pt a" "-1 \<le> indexOf pt b" by (rule indexOf_ge)+
  then show ?thesis by (auto simp: type_rank_def)
qed

lemma type_rank_position:
  assumes "ty \<in> set pt"
  shows "\<exists>i<length pt. pt ! i = ty \<and> type_rank pt ty = enat i \<and> (\<forall>j<i. pt ! j \<noteq> ty)"
proof -
  let ?i = "nat (indexOf pt ty)"
  from indexOf_lt_length [OF assms] have "?i < length pt" by (simp add: nat_less_iff)
  moreover have "pt ! ?i = ty" by (rule indexOf_nth [OF assms])
  moreover have "type_rank pt ty = enat ?i" by (rule type_rank_listed [OF assms])
  moreover have "\<forall>j<?i. pt ! j \<noteq> ty" using indexOf_first [OF _ assms] by blast
  ultimately show ?thesis by blast
qed

text \<open>The comparator is positive exactly when its first argument ranks strictly after its second.\<close>

lemma compare_positive_iff:
  "js_gt (compareRecommendations pt a b) (Num 0) \<longleftrightarrow> \<not> priority_le pt a b"
proof (cases "severityOrder (severity a) = severityOrder (severity b)")
  case False
  then show ?thesis
    by (auto simp: compareRecommendations_def priority_le_def)
next
  case True
  have ge: "-1 \<le> indexOf pt (type a)" "-1 \<le> indexOf pt (type b)" by (rule indexOf_ge)+
  have "priority_le pt a b \<longleftrightarrow> \<not> type_rank pt (type b) < type_rank pt (type a)"
    using True by (auto simp: priority_le_def)
  moreover have "js_gt (compareRecommendations pt a b) (Num 0) \<longleftrightarrow>
      type_rank pt (type b) < type_rank pt (type a)"
    using True ge by (auto simp: compareRecommendations_def Let_def type_rank_less_iff)
  ultimately show ?thesis by simp
qed

lemma priority_le_total: "priority_le pt a b \<or> priority_le pt b a"
  by (auto simp: priority_le_def)

lemma priority_le_trans: "priority_le pt a b \<Longrightarrow> priority_le pt b c \<Longrightarrow> priority_le pt a c"
  by (auto simp: priority_le_def)

lemma priority_le_antisym:
  "priority_le pt a b \<Longrightarrow> priority_le pt b a \<Longrightarrow> same_priority pt a b"
  by (auto simp: priority_le_def same_priority_def severityOrder_inj)

lemma same_priority_le: "same_priority pt a b \<Longrightarrow> priority_le pt a b"
  by (simp add: priority_le_def same_priority_def)

section \<open>Properties of the prioritizer\<close>

lemma sorted_insort_priority:
  assumes "sorted_wrt (priority_le pt) ys"
  shows "sorted_wrt (priority_le pt) (insort_by (compareRecommendations pt) x ys)"
  using assms
proof (induction ys)
  case Nil
  show ?case by simp
next
  case (Cons y ys)
  show ?case
  proof (cases "priority_le pt x y")
    case True
    have "\<forall>z\<in>set ys. priority_le pt x z"
      using Cons.prems True by (auto intro: priority_le_trans)
    with True Cons.prems show ?thesis
      by (simp add: compare_positive_iff)
  next
    case False
    then have yx: "priority_le pt y x" using priority_le_total [of pt x y] by simp
    have "sorted_wrt (priority_le pt) (insort_by (compareRecommendations pt) x ys)"
      using Cons by simp
    with False yx Cons.prems show ?thesis
      by (simp add: compare_positive_iff set_insort_by)
  qed
qed

lemma sorted_prioritized: "sorted_wrt (priority_le pt) (prioritized pt xs)"
  unfolding prioritized_def
  by (induction xs) (simp_all add: js_sort_Nil js_sort_Cons sorted_insort_priority)

lemma filter_insort_priority:
  "filter (same_priority pt k) (insort_by (compareRecommendations pt) x ys) =
     (if same_priority pt k x then x # filter (same_priority pt k) ys
      else filter (same_priority pt k) ys)"
proof (induction ys)
  case Nil
  show ?case by simp
next
  case (Cons y ys)
  show ?case
  proof (cases "priority_le pt x y")
    case True
    then show ?thesis by (simp add: compare_positive_iff)
  next
    case False
    then have "\<not> (same_priority pt k x \<and> same_priority pt k y)"
      by (auto simp: same_priority_def priority_le_def)
    with False Cons show ?thesis by (auto simp: compare_positive_iff)
  qed
qed

lemma filter_prioritized:
  "filter (same_priority pt k) (prioritized pt xs) = filter (same_priority pt k) xs"
  unfolding prioritized_def
  by (induction xs) (simp_all add: js_sort_Nil js_sort_Cons filter_insort_priority)

lemma insort_sorted_head:
  "\<forall>y\<in>set ys. priority_le pt x y \<Longrightarrow> insort_by (compareRecommendations pt) x ys = x # ys"
  by (cases ys) (simp_all add: compare_positive_iff)

lemma prioritized_sorted_id:
  "sorted_wrt (priority_le pt) xs \<Longrightarrow> prioritized pt xs = xs"
  unfolding prioritized_def
  by (induction xs) (simp_all add: js_sort_Nil js_sort_Cons insort_sorted_head)

lemma prioritized_fixed_iff:
  "prioritized pt xs = xs \<longleftrightarrow> sorted_wrt (priority_le pt) xs"
proof
  assume "prioritized pt xs = xs"
  then show "sorted_wrt (priority_le pt) xs"
    using sorted_prioritized [of pt xs] by simp
next
  assume "sorted_wrt (priority_le pt) xs"
  then show "prioritized pt xs = xs" by (rule prioritized_sorted_id)
qed

lemma prioritized_singleton: "prioritized pt [x] = [x]"
  by (simp add: prioritized_def js_sort_def)

section \<open>Properties of the analysis coordinator\<close>

lemma validateQuery_not_string:
  "(\<forall>s. queryArg \<noteq> JStr s) \<Longrightarrow> validateQuery queryArg = Inl (Error ''Invalid query provided'')"
  by (cases queryArg) (simp_all add: validateQuery_def)

lemma validateQuery_empty: "validateQuery (JStr []) = Inl (Error ''Invalid query provided'')"
  by (simp add: validateQuery_def)

lemma validateQuery_blank:
  "s \<noteq> [] \<Longrightarrow> \<forall>c\<in>set s. isWhiteSpace c \<Longrightarrow>
     validateQuery (JStr s) = Inl (Error ''Empty query provided'')"
  by (simp add: validateQuery_def trim_blank_iff)

lemma validateQuery_not_select:
  "trim s \<noteq> [] \<Longrightarrow> \<not> prefix ''select'' (toLowerCase (trim s)) \<Longrightarrow>
     validateQuery (JStr s) = Inl (Error ''Only SELECT queries can be analyzed'')"
  by (auto simp: validateQuery_def startsWith_def Let_def trim_def)

lemma validateQuery_accepts:
  "validateQuery queryArg = Inr tq \<longleftrightarrow>
     (\<exists>s. queryArg = JStr s \<and> tq = trim s \<and> tq \<noteq> [] \<and> prefix ''select'' (toLowerCase tq))"
  by (cases queryArg) (auto simp: validateQuery_def startsWith_def Let_def trim_def split: if_splits)

lemma mysql_analyze_invalid:
  "connect_outcome db = None \<Longrightarrow> validateQuery queryArg = Inl e \<Longrightarrow>
     mysql_analyze cfg t db queryArg =
       (Inl (Prefixed ''MySQL Analysis Error: '' e), [CreateConnection, ConnectionEnd])"
  by (simp add: mysql_analyze_def mysql_analysis_def)

lemma pg_analyze_invalid:
  "connect_outcome db = None \<Longrightarrow> validateQuery queryArg = Inl e \<Longrightarrow>
     pg_analyze cfg t db queryArg =
       (Inl (Prefixed ''PostgreSQL Analysis Error: '' e), [NewPool, PoolConnect, ClientRelease])"
  by (simp add: pg_analyze_def pg_analysis_def)

lemma mysql_analyze_unreachable:
  "connect_outcome db = Some e \<Longrightarrow>
     mysql_analyze cfg t db queryArg = (Inl (Prefixed ''MySQL Analysis Error: '' e), [ConnectRefused])"
  by (simp add: mysql_analyze_def)

lemma pg_analyze_unreachable:
  "connect_outcome db = Some e \<Longrightarrow>
     pg_analyze cfg t db queryArg =
       (Inl (Prefixed ''PostgreSQL Analysis Error: '' e), [NewPool, ConnectRefused])"
  by (simp add: pg_analyze_def)


lemma mysql_analyze_success:
  "connect_outcome db = None \<Longrightarrow> validateQuery queryArg = Inr tq \<Longrightarrow>
   explain_outcome db (''EXPLAIN '' @ tq) = Inr result \<Longrightarrow>
     mysql_analyze cfg t db queryArg =
       (Inr \<lparr>query = tq,
             executionPlan = (case result of [] \<Rightarrow> None | row # _ \<Rightarrow> Some row),
             tableStatistics = rows_or_empty (statistics_outcome db (database cfg)),
             indexes = rows_or_empty (indexes_outcome db (database cfg)),
             recommendations =
               mysql_generateRecommendations t (case result of [] \<Rightarrow> None | row # _ \<Rightarrow> Some row)
                 (rows_or_empty (statistics_outcome db (database cfg)))
                 (rows_or_empty (indexes_outcome db (database cfg)))\<rparr>,
        [CreateConnection, Explain (''EXPLAIN '' @ tq), Statistics (database cfg),
         Indexes (database cfg), ConnectionEnd])"
  by (simp add: mysql_analyze_def mysql_analysis_def Let_def)



lemma pg_analyze_success:
  "connect_outcome db = None \<Longrightarrow> validateQuery queryArg = Inr tq \<Longrightarrow>
   explain_outcome db (pg_explain_statement tq) = Inr result \<Longrightarrow>
   pg_explainResult result = Inr explainResult \<Longrightarrow>
     pg_analyze cfg t db queryArg =
       (Inr \<lparr>query = tq, executionPlan = explainResult,
             tableStatistics = rows_or_empty (statistics_outcome db (Some (pg_schema cfg))),
             indexes = rows_or_empty (indexes_outcome db (Some (pg_schema cfg))),
             recommendations =
               pg_generateRecommendations t explainResult
                 (rows_or_empty (statistics_outcome db (Some (pg_schema cfg))))
                 (rows_or_empty (indexes_outcome db (Some (pg_schema cfg))))\<rparr>,
        [NewPool, PoolConnect, Explain (pg_explain_statement tq),
         Statistics (Some (pg_schema cfg)), Indexes (Some (pg_schema cfg)), ClientRelease])"
  by (simp add: pg_analyze_def pg_analysis_def Let_def)

lemma mysql_analysis_calls:
  "foldl (\<lambda>held call. after_call call held) held (snd (mysql_analysis cfg t db queryArg)) = held"
  "set (snd (mysql_analysis cfg t db queryArg)) \<inter>
     {CreateConnection, NewPool, PoolConnect, ConnectRefused, ConnectionEnd, ClientRelease, PoolEnd} = {}"
  by (simp_all add: mysql_analysis_def Let_def split: sum.splits)

lemma pg_analysis_calls:
  "foldl (\<lambda>held call. after_call call held) held (snd (pg_analysis cfg t db queryArg)) = held"
  "set (snd (pg_analysis cfg t db queryArg)) \<inter>
     {CreateConnection, NewPool, PoolConnect, ConnectRefused, ConnectionEnd, ClientRelease, PoolEnd} = {}"
  by (simp_all add: pg_analysis_def Let_def split: sum.splits)

lemma mysql_analyze_calls:
  "snd (mysql_analyze cfg t db queryArg) =
     (case connect_outcome db of
        Some e \<Rightarrow> [ConnectRefused]
      | None \<Rightarrow> CreateConnection # snd (mysql_analysis cfg t db queryArg) @ [ConnectionEnd])"
  by (simp add: mysql_analyze_def split: prod.splits sum.splits option.splits)

lemma pg_analyze_calls:
  "snd (pg_analyze cfg t db queryArg) =
     (case connect_outcome db of
        Some e \<Rightarrow> [NewPool, ConnectRefused]
      | None \<Rightarrow> NewPool # PoolConnect # snd (pg_analysis cfg t db queryArg) @ [ClientRelease])"
  by (simp add: pg_analyze_def split: prod.splits sum.splits option.splits)

lemma mysql_analyze_still_held: "still_held (snd (mysql_analyze cfg t db queryArg)) = {}"
  by (simp add: mysql_analyze_calls still_held_def mysql_analysis_calls(1) split: option.splits)

lemma pg_analyze_still_held:
  "still_held (snd (pg_analyze cfg t db queryArg)) =
     (case connect_outcome db of Some e \<Rightarrow> {Pool} | None \<Rightarrow> {Pool, Session})"
  by (auto simp: pg_analyze_calls still_held_def pg_analysis_calls(1) split: option.splits)

lemma pg_analyze_never_ends_pool: "PoolEnd \<notin> set (snd (pg_analyze cfg t db queryArg))"
  using pg_analysis_calls(2) [of cfg t db queryArg]
  by (auto simp: pg_analyze_calls split: option.splits)

section \<open>Properties of the rule engine\<close>

lemmas pg_rule_defs = pg_rules_def pg_analyzeScanMethods_def pg_analyzeJoinOperations_def
  pg_analyzeTemporaryStructures_def pg_analyzeIndexUsage_def pg_analyzeTableStatistics_def
  pg_analyzeParallelExecution_def pg_analyzePartitioning_def pg_analyzeCTEUsage_def
  pg_analyzeAggregationOperations_def pg_analyzeMaterialization_def

lemmas mysql_rule_defs = mysql_rules_def returns_def mysql_analyzeTableAccessMethod_def
  mysql_analyzeJoinOperations_def mysql_analyzeTemporaryStructures_def mysql_analyzeIndexUsage_def
  mysql_analyzeTableStatistics_def mysql_analyzeQueryStructure_def mysql_analyzePartitioning_def
  mysql_analyzeSubqueries_def mysql_analyzeSortOperations_def mysql_analyzeGroupOperations_def

lemmas value_eval = push_def undefined_number_def null_number_def num_truthy_def str_truthy_def
  opt_includes_def str_or_null_def str_or_undefined_def num_or_null_def js_div_def

lemma run_rules_append:
  "run_rules (pre @ rs) recs =
     (case run_rules pre recs of
        (Some e, recs') \<Rightarrow> (Some e, recs')
      | (None, recs') \<Rightarrow> run_rules rs recs')"
  by (induction pre arbitrary: recs) (auto split: prod.splits option.splits)

lemma run_rules_stops_at_failure:
  assumes "run_rules before recs = (None, collected)" and "failing collected = (Some e, left)"
  shows "run_rules (before @ failing # later) recs = (Some e, left)"
  using assms by (simp add: run_rules_append)

lemma pg_rule_failure_keeps_array:
  assumes "r \<in> set (pg_rules t plan stats idx)" and "fst (r acc) \<noteq> None"
  shows "snd (r acc) = acc"
  using assms
  by (auto simp: pg_rule_defs Let_def split: option.splits if_splits)

lemma mysql_rules_never_raise:
  "fst (run_rules (mysql_rules t row stats idx) recs) = None"
  by (simp add: mysql_rules_def returns_def)

lemma pg_rule_reads_fields_only:
  "pg_analyzeScanMethods t (Some (PlanNode p children)) = pg_analyzeScanMethods t (Some (PlanNode p []))"
  "pg_analyzeJoinOperations t (Some (PlanNode p children)) = pg_analyzeJoinOperations t (Some (PlanNode p []))"
  "pg_analyzeTemporaryStructures t (Some (PlanNode p children)) = pg_analyzeTemporaryStructures t (Some (PlanNode p []))"
  "pg_analyzeIndexUsage t (Some (PlanNode p children)) idx = pg_analyzeIndexUsage t (Some (PlanNode p [])) idx"
  "pg_analyzeTableStatistics t (Some (PlanNode p children)) stats = pg_analyzeTableStatistics t (Some (PlanNode p [])) stats"
  "pg_analyzeParallelExecution t (Some (PlanNode p children)) = pg_analyzeParallelExecution t (Some (PlanNode p []))"
  "pg_analyzePartitioning t (Some (PlanNode p children)) = pg_analyzePartitioning t (Some (PlanNode p []))"
  "pg_analyzeCTEUsage t (Some (PlanNode p children)) = pg_analyzeCTEUsage t (Some (PlanNode p []))"
  "pg_analyzeAggregationOperations t (Some (PlanNode p children)) = pg_analyzeAggregationOperations t (Some (PlanNode p []))"
  "pg_analyzeMaterialization t (Some (PlanNode p children)) = pg_analyzeMaterialization t (Some (PlanNode p []))"
  by (rule ext, simp add: pg_rule_defs)+

lemma pg_rules_root_only:
  "pg_rules t (Some (PlanNode p children)) stats idx = pg_rules t (Some (PlanNode p [])) stats idx"
  unfolding pg_rules_def
  by (simp only: pg_rule_reads_fields_only [of t p children])

lemma node_rules_append:
  "run_rules [pg_analyzeScanMethods t (Some node),
              pg_analyzeJoinOperations t (Some node),
              pg_analyzeTemporaryStructures t (Some node)] recs =
     (None, recs @ node_findings t node)"
  by (simp add: node_findings_def pg_analyzeScanMethods_def pg_analyzeJoinOperations_def
      pg_analyzeTemporaryStructures_def Let_def push_def)

lemma analyzePlanNode_preorder:
  "analyzePlanNode t node recs = (None, recs @ concat (map (node_findings t) (preorder node)))"
  "analyzePlanNodes t nodes recs = (None, recs @ concat (map (node_findings t) (preorder_list nodes)))"
proof (induction t node recs and t nodes recs rule: analyzePlanNode_analyzePlanNodes.induct)
  case (1 t p children recs)
  then show ?case by (simp add: node_rules_append del: run_rules.simps)
next
  case (2 t recs)
  show ?case by simp
next
  case (3 t childPlan rest recs)
  then show ?case by simp
qed

lemma pg_generateRecommendations_run:
  "pg_generateRecommendations t (Some \<lparr>Plan = plan\<rparr>) stats idx =
     prioritized pg_priorityTypes (snd (run_rules (pg_rules t plan stats idx) []))"
  by (simp add: pg_generateRecommendations_def split: prod.splits option.splits)

lemma mysql_generateRecommendations_run:
  "mysql_generateRecommendations t (Some row) stats idx =
     prioritized mysql_priorityTypes (snd (run_rules (mysql_rules t row stats idx) []))"
  by (simp add: mysql_generateRecommendations_def split: prod.splits option.splits)

lemma analyzeTableStatistics_emits:
  assumes "find (\<lambda>stat. Some (table_name stat) = table row) stats = Some st"
  shows "mysql_analyzeTableStatistics t row stats recs =
     recs
     @ (if js_gt (Num (null_number (table_rows st))) (Num 10000) \<and> access_type row = Some ''ALL''
        then [finding t ''LARGE_TABLE_SCAN'' HIGH ''largeTableScan''
                [(''rows'', num_or_null (table_rows st))]
                [''addIndexes'', ''partition'', ''optimize'']]
        else [])
     @ (if js_gt (js_div (null_number (index_length st)) (null_number (data_length st))) (Num 0.5)
        then [finding t ''HIGH_INDEX_RATIO'' LOW ''highIndexRatio'' []
                [''review'', ''remove'', ''covering'']]
        else [])"
proof -
  from assms have "stats \<noteq> []" by auto
  with assms show ?thesis
    by (simp add: mysql_analyzeTableStatistics_def Let_def push_def)
qed

section \<open>The translation service on the keys of the analyzers\<close>

lemmas i18n_eval = I18n_t_def getNestedValue_def translation_table_def nested_step_def
  object_ToString_def

lemma large_table_scan_text:
  "I18n_t EN ''analyzer.recommendations.largeTableScan.message'' ps =
     Text ''Large table scan detected ([object Object] rows)''"
  "I18n_t ID ''analyzer.recommendations.largeTableScan.message'' ps =
     Text ''Pemindaian tabel besar terdeteksi ([object Object] baris)''"
  by (simp_all add: i18n_eval translations_en_def en_recommendations_def
      translations_id_def id_recommendations_def)

section \<open>The sample data evaluated\<close>

lemmas string_eval = trim_def isWhiteSpace_def startsWith_def toLowerCase_def toLowerCase_char_def
  upper_letters_def lower_letters_def

lemma shop_connects:
  "connect_outcome shop_mysql = None" "connect_outcome (shop_pg plan) = None"
  "connect_outcome shop_mysql_bare = None" "connect_outcome (shop_pg_bare plan) = None"
  by (simp_all add: shop_mysql_def shop_pg_def shop_mysql_bare_def shop_pg_bare_def
      answering_def without_metadata_def)

lemma shop_down:
  "connect_outcome shop_mysql_down = Some (Error ''connect ECONNREFUSED'')"
  "connect_outcome shop_pg_down = Some (Error ''connect ECONNREFUSED'')"
  by (simp_all add: shop_mysql_down_def shop_pg_down_def unreachable_def answering_def)

lemma validate_select_orders:
  "validateQuery (JStr ''select * from orders'') = Inr ''select * from orders''"
  by (simp add: validateQuery_def string_eval)

lemma shop_explain:
  "explain_outcome shop_mysql sql = Inr [orders_row]"
  "explain_outcome shop_mysql_bare sql = Inr [orders_row]"
  "explain_outcome (shop_pg plan) sql = Inr (plan_response plan)"
  "explain_outcome (shop_pg_bare plan) sql = Inr (plan_response plan)"
  by (simp_all add: shop_mysql_def shop_pg_def shop_mysql_bare_def shop_pg_bare_def
      answering_def without_metadata_def)


lemma pg_explainResult_plan_response:
  "pg_explainResult (plan_response plan) = Inr (Some \<lparr>Plan = Some plan\<rparr>)"
  by (simp add: pg_explainResult_def plan_response_def)


lemma hash_join_no_cond_prefix:
  "run_rules [pg_analyzeScanMethods t (Some hash_join_no_cond),
              pg_analyzeJoinOperations t (Some hash_join_no_cond),
              pg_analyzeTemporaryStructures t (Some hash_join_no_cond)] [] =
     (None, [finding t ''HASH_SPILL'' MEDIUM ''hashSpill'' []
               [''increaseMemory'', ''optimizeJoin'', ''partitionData'']])"
  by (simp add: pg_analyzeScanMethods_def pg_analyzeJoinOperations_def
      pg_analyzeTemporaryStructures_def hash_join_no_cond_def no_fields_def value_eval)

lemma hash_join_no_cond_raises:
  "pg_analyzeIndexUsage t (Some hash_join_no_cond) idx recs = (Some TypeError, recs)"
  by (simp add: pg_analyzeIndexUsage_def hash_join_no_cond_def no_fields_def)

lemma orders_stat_found:
  "find (\<lambda>stat. Some (table_name stat) = table orders_row) [orders_stat] = Some orders_stat"
  by (simp add: orders_row_def orders_stat_def)

lemma orders_statistics_findings:
  "mysql_analyzeTableStatistics t orders_row [orders_stat] recs =
     recs @ [finding t ''LARGE_TABLE_SCAN'' HIGH ''largeTableScan'' [(''rows'', JNum 50000)]
               [''addIndexes'', ''partition'', ''optimize''],
             finding t ''HIGH_INDEX_RATIO'' LOW ''highIndexRatio'' []
               [''review'', ''remove'', ''covering'']]"
  by (simp add: analyzeTableStatistics_emits [OF orders_stat_found])
     (simp add: orders_row_def orders_stat_def value_eval)

lemma orders_findings:
  "mysql_generateRecommendations t (Some orders_row) [orders_stat] [] =
     [finding t ''TABLE_SCAN'' HIGH ''tableScan'' [(''tableName'', JStr ''orders'')]
        [''review'', ''addIndexes'', ''coveringIndexes''],
      finding t ''LARGE_TABLE_SCAN'' HIGH ''largeTableScan'' [(''rows'', JNum 50000)]
        [''addIndexes'', ''partition'', ''optimize''],
      finding t ''ACCESS_TYPE'' MEDIUM ''accessType'' [(''type'', JStr ''ALL'')]
        [''review'', ''indexCoverage'', ''restructure''],
      finding t ''HIGH_INDEX_RATIO'' LOW ''highIndexRatio'' []
        [''review'', ''remove'', ''covering'']]"
proof -
  have run: "snd (run_rules (mysql_rules t orders_row [orders_stat] []) []) =
     [finding t ''TABLE_SCAN'' HIGH ''tableScan'' [(''tableName'', JStr ''orders'')]
        [''review'', ''addIndexes'', ''coveringIndexes''],
      finding t ''ACCESS_TYPE'' MEDIUM ''accessType'' [(''type'', JStr ''ALL'')]
        [''review'', ''indexCoverage'', ''restructure''],
      finding t ''LARGE_TABLE_SCAN'' HIGH ''largeTableScan'' [(''rows'', JNum 50000)]
        [''addIndexes'', ''partition'', ''optimize''],
      finding t ''HIGH_INDEX_RATIO'' LOW ''highIndexRatio'' []
        [''review'', ''remove'', ''covering'']]"
    by (simp add: mysql_rules_def returns_def orders_statistics_findings)
       (simp add: mysql_rule_defs orders_row_def value_eval)
  show ?thesis
    unfolding mysql_generateRecommendations_run run
    by (simp add: prioritized_def js_sort_def compareRecommendations_def mysql_priorityTypes_def
        finding_def)
qed

lemma seq_scan_finding:
  "pg_analyzeScanMethods t (Some seq_scan) recs =
     (None, recs @ [finding t ''SEQUENTIAL_SCAN'' HIGH ''sequentialScan''
                      [(''tableName'', JStr ''orders'')]
                      [''createIndex'', ''analyzeTable'', ''reviewWhere'']])"
  by (simp add: pg_analyzeScanMethods_def seq_scan_def no_fields_def value_eval)

lemma node_findings_samples:
  "node_findings t seq_scan =
     [finding t ''SEQUENTIAL_SCAN'' HIGH ''sequentialScan'' [(''tableName'', JStr ''orders'')]
        [''createIndex'', ''analyzeTable'', ''reviewWhere'']]"
  "node_findings t nested_loop_over_scan = []"
  "node_findings t hash_join_over_scan =
     [finding t ''HASH_SPILL'' MEDIUM ''hashSpill'' []
        [''increaseMemory'', ''optimizeJoin'', ''partitionData'']]"
  by (simp_all add: node_findings_def pg_analyzeScanMethods_def pg_analyzeJoinOperations_def
      pg_analyzeTemporaryStructures_def seq_scan_def nested_loop_over_scan_def
      hash_join_over_scan_def no_fields_def value_eval)

lemma preorder_samples:
  "preorder seq_scan = [seq_scan]"
  "preorder nested_loop_over_scan = [nested_loop_over_scan, seq_scan]"
  "preorder hash_join_over_scan = [hash_join_over_scan, seq_scan]"
  by (simp_all add: seq_scan_def nested_loop_over_scan_def hash_join_over_scan_def)

lemma nested_loop_root_findings:
  "pg_generateRecommendations t (Some \<lparr>Plan = Some nested_loop_over_scan\<rparr>) stats idx = []"
  by (simp add: pg_generateRecommendations_def pg_rule_defs value_eval nested_loop_over_scan_def
      no_fields_def prioritized_def js_sort_def)

lemma hash_join_root_findings:
  "pg_generateRecommendations t (Some \<lparr>Plan = Some hash_join_over_scan\<rparr>) stats idx =
     [finding t ''HASH_SPILL'' MEDIUM ''hashSpill'' []
        [''increaseMemory'', ''optimizeJoin'', ''partitionData'']]"
  by (simp add: pg_generateRecommendations_def pg_rule_defs value_eval hash_join_over_scan_def
      no_fields_def prioritized_singleton)

section \<open>The traversal of the plan\<close>

text \<open>
  C1 on the code. \<open>generateRecommendations\<close> gives the same list whatever the children
  of the root are: its ten rules read the root only. For a nested loop over a
  sequential scan the scan rule fires at the child, yet the result is empty. The helper
  \<open>analyzePlanNode\<close> does visit every node once, in depth-first pre-order, with three of
  the ten rules, and would report the scan; nothing calls it.
\<close>

theorem generateRecommendations_reads_root_only:
  "pg_generateRecommendations t (Some \<lparr>Plan = Some (PlanNode p children)\<rparr>) stats idx
     = pg_generateRecommendations t (Some \<lparr>Plan = Some (PlanNode p [])\<rparr>) stats idx
   \<and> Plans nested_loop_over_scan = [seq_scan]
   \<and> pg_analyzeScanMethods t (Some seq_scan) [] =
       (None, [finding t ''SEQUENTIAL_SCAN'' HIGH ''sequentialScan''
                 [(''tableName'', JStr ''orders'')]
                 [''createIndex'', ''analyzeTable'', ''reviewWhere'']])
   \<and> pg_generateRecommendations t (Some \<lparr>Plan = Some nested_loop_over_scan\<rparr>) stats idx = []
   \<and> analyzePlanNode t node recs = (None, recs @ concat (map (node_findings t) (preorder node)))
   \<and> analyzePlanNode t nested_loop_over_scan [] =
       (None, [finding t ''SEQUENTIAL_SCAN'' HIGH ''sequentialScan''
                 [(''tableName'', JStr ''orders'')]
                 [''createIndex'', ''analyzeTable'', ''reviewWhere'']])"
proof -
  have "pg_generateRecommendations t (Some \<lparr>Plan = Some (PlanNode p children)\<rparr>) stats idx
     = pg_generateRecommendations t (Some \<lparr>Plan = Some (PlanNode p [])\<rparr>) stats idx"
    by (simp only: pg_generateRecommendations_run pg_rules_root_only [of t p children stats idx])
  moreover have "Plans nested_loop_over_scan = [seq_scan]"
    by (simp add: nested_loop_over_scan_def)
  moreover have "analyzePlanNode t nested_loop_over_scan [] =
       (None, [finding t ''SEQUENTIAL_SCAN'' HIGH ''sequentialScan''
                 [(''tableName'', JStr ''orders'')]
                 [''createIndex'', ''analyzeTable'', ''reviewWhere'']])"
    by (simp add: analyzePlanNode_preorder preorder_samples node_findings_samples)
  ultimately show ?thesis
    using seq_scan_finding [of t "[]"] nested_loop_root_findings [of t stats idx]
      analyzePlanNode_preorder(1) [of t node recs]
    by simp
qed

section \<open>A hash join over a full scan\<close>

text \<open>
  C2 on the code. For the hash join in two batches over a sequential scan,
  \<open>generateRecommendations\<close> returns the HASH_SPILL finding alone: the scan below the
  join is never looked at. Had the findings of \<open>analyzePlanNode\<close> been prioritized, the
  list would be the full-scan finding (HIGH) followed by HASH_SPILL (MEDIUM).
\<close>

theorem hash_join_over_scan_reports_spill_only:
  "pg_generateRecommendations t (Some \<lparr>Plan = Some hash_join_over_scan\<rparr>) stats idx =
     [finding t ''HASH_SPILL'' MEDIUM ''hashSpill'' []
        [''increaseMemory'', ''optimizeJoin'', ''partitionData'']]
   \<and> prioritized pg_priorityTypes (snd (analyzePlanNode t hash_join_over_scan [])) =
     [finding t ''SEQUENTIAL_SCAN'' HIGH ''sequentialScan'' [(''tableName'', JStr ''orders'')]
        [''createIndex'', ''analyzeTable'', ''reviewWhere''],
      finding t ''HASH_SPILL'' MEDIUM ''hashSpill'' []
        [''increaseMemory'', ''optimizeJoin'', ''partitionData'']]"
proof -
  have "prioritized pg_priorityTypes (snd (analyzePlanNode t hash_join_over_scan [])) =
     [finding t ''SEQUENTIAL_SCAN'' HIGH ''sequentialScan'' [(''tableName'', JStr ''orders'')]
        [''createIndex'', ''analyzeTable'', ''reviewWhere''],
      finding t ''HASH_SPILL'' MEDIUM ''hashSpill'' []
        [''increaseMemory'', ''optimizeJoin'', ''partitionData'']]"
    by (simp add: analyzePlanNode_preorder preorder_samples node_findings_samples)
       (simp add: prioritized_def js_sort_def compareRecommendations_def pg_priorityTypes_def
          finding_def)
  with hash_join_root_findings [of t stats idx] show ?thesis by simp
qed

section \<open>Validation of the query\<close>

text \<open>
  C3 as stated fails: the connection is opened before the query is looked at, so with a
  database that refuses the connection the empty query and the \<open>UPDATE\<close> statement both
  fail with the connection error, as a query that is a proper \<open>SELECT\<close> would.
\<close>

theorem blank_query_unreachable_counterexample:
  "fst (mysql_analyze sample_config (I18n_t EN) shop_mysql_down (JStr '''')) =
       Inl (Prefixed ''MySQL Analysis Error: '' (Error ''connect ECONNREFUSED''))
   \<and> fst (mysql_analyze sample_config (I18n_t EN) shop_mysql_down (JStr '''')) \<noteq>
       Inl (Prefixed ''MySQL Analysis Error: '' (Error ''Invalid query provided''))
   \<and> fst (pg_analyze sample_config (I18n_t EN) shop_pg_down (JStr ''UPDATE t SET x=1'')) =
       Inl (Prefixed ''PostgreSQL Analysis Error: '' (Error ''connect ECONNREFUSED''))
   \<and> fst (pg_analyze sample_config (I18n_t EN) shop_pg_down (JStr ''UPDATE t SET x=1'')) \<noteq>
       Inl (Prefixed ''PostgreSQL Analysis Error: '' (Error ''Only SELECT queries can be analyzed''))"
  by (simp add: mysql_analyze_unreachable [OF shop_down(1)] pg_analyze_unreachable [OF shop_down(2)])

text \<open>
  C3, amended. Once the connection is acquired: a query that is not a string or is the
  empty string fails with \<open>Invalid query provided\<close>, a non-empty string of white space
  fails with \<open>Empty query provided\<close> (the two messages of the invalid-query error), and a
  text that after trimming does not start, case-insensitively, with \<open>select\<close> fails with
  \<open>Only SELECT queries can be analyzed\<close> (the unsupported-query error); each wrapped with
  the analyzer's prefix.
\<close>

theorem analyze_rejects_invalid_queries:
  assumes "connect_outcome mdb = None" and "connect_outcome pdb = None"
  shows "((\<forall>s. queryArg \<noteq> JStr s) \<or> queryArg = JStr [] \<longrightarrow>
            fst (mysql_analyze cfg t mdb queryArg) =
              Inl (Prefixed ''MySQL Analysis Error: '' (Error ''Invalid query provided''))
          \<and> fst (pg_analyze cfg t pdb queryArg) =
              Inl (Prefixed ''PostgreSQL Analysis Error: '' (Error ''Invalid query provided'')))
       \<and> (s \<noteq> [] \<and> (\<forall>c\<in>set s. isWhiteSpace c) \<longrightarrow>
            fst (mysql_analyze cfg t mdb (JStr s)) =
              Inl (Prefixed ''MySQL Analysis Error: '' (Error ''Empty query provided''))
          \<and> fst (pg_analyze cfg t pdb (JStr s)) =
              Inl (Prefixed ''PostgreSQL Analysis Error: '' (Error ''Empty query provided'')))
       \<and> (trim s \<noteq> [] \<and> \<not> prefix ''select'' (toLowerCase (trim s)) \<longrightarrow>
            fst (mysql_analyze cfg t mdb (JStr s)) =
              Inl (Prefixed ''MySQL Analysis Error: '' (Error ''Only SELECT queries can be analyzed''))
          \<and> fst (pg_analyze cfg t pdb (JStr s)) =
              Inl (Prefixed ''PostgreSQL Analysis Error: ''
                     (Error ''Only SELECT queries can be analyzed'')))"
proof (intro conjI impI)
  assume "(\<forall>s. queryArg \<noteq> JStr s) \<or> queryArg = JStr []"
  then have v: "validateQuery queryArg = Inl (Error ''Invalid query provided'')"
    using validateQuery_not_string [of queryArg] validateQuery_empty by blast
  show "fst (mysql_analyze cfg t mdb queryArg) =
      Inl (Prefixed ''MySQL Analysis Error: '' (Error ''Invalid query provided''))"
    by (simp add: mysql_analyze_invalid [OF assms(1) v])
  show "fst (pg_analyze cfg t pdb queryArg) =
      Inl (Prefixed ''PostgreSQL Analysis Error: '' (Error ''Invalid query provided''))"
    by (simp add: pg_analyze_invalid [OF assms(2) v])
next
  assume "s \<noteq> [] \<and> (\<forall>c\<in>set s. isWhiteSpace c)"
  then have v: "validateQuery (JStr s) = Inl (Error ''Empty query provided'')"
    by (simp add: validateQuery_blank)
  show "fst (mysql_analyze cfg t mdb (JStr s)) =
      Inl (Prefixed ''MySQL Analysis Error: '' (Error ''Empty query provided''))"
    by (simp add: mysql_analyze_invalid [OF assms(1) v])
  show "fst (pg_analyze cfg t pdb (JStr s)) =
      Inl (Prefixed ''PostgreSQL Analysis Error: '' (Error ''Empty query provided''))"
    by (simp add: pg_analyze_invalid [OF assms(2) v])
next
  assume "trim s \<noteq> [] \<and> \<not> prefix ''select'' (toLowerCase (trim s))"
  then have v: "validateQuery (JStr s) = Inl (Error ''Only SELECT queries can be analyzed'')"
    by (simp add: validateQuery_not_select)
  show "fst (mysql_analyze cfg t mdb (JStr s)) =
      Inl (Prefixed ''MySQL Analysis Error: '' (Error ''Only SELECT queries can be analyzed''))"
    by (simp add: mysql_analyze_invalid [OF assms(1) v])
  show "fst (pg_analyze cfg t pdb (JStr s)) =
      Inl (Prefixed ''PostgreSQL Analysis Error: '' (Error ''Only SELECT queries can be analyzed''))"
    by (simp add: pg_analyze_invalid [OF assms(2) v])
qed

theorem analyze_rejects_invalid_queries_witness:
  "connect_outcome shop_mysql = None \<and> connect_outcome (shop_pg seq_scan) = None
   \<and> fst (mysql_analyze sample_config (I18n_t EN) shop_mysql (JStr '''')) =
       Inl (Prefixed ''MySQL Analysis Error: '' (Error ''Invalid query provided''))
   \<and> fst (pg_analyze sample_config (I18n_t EN) (shop_pg seq_scan) (JStr '''')) =
       Inl (Prefixed ''PostgreSQL Analysis Error: '' (Error ''Invalid query provided''))
   \<and> fst (mysql_analyze sample_config (I18n_t EN) shop_mysql (JStr ''   '')) =
       Inl (Prefixed ''MySQL Analysis Error: '' (Error ''Empty query provided''))
   \<and> fst (pg_analyze sample_config (I18n_t EN) (shop_pg seq_scan) (JStr ''   '')) =
       Inl (Prefixed ''PostgreSQL Analysis Error: '' (Error ''Empty query provided''))
   \<and> fst (mysql_analyze sample_config (I18n_t EN) shop_mysql (JStr ''UPDATE t SET x=1'')) =
       Inl (Prefixed ''MySQL Analysis Error: '' (Error ''Only SELECT queries can be analyzed''))
   \<and> fst (pg_analyze sample_config (I18n_t EN) (shop_pg seq_scan) (JStr ''UPDATE t SET x=1'')) =
       Inl (Prefixed ''PostgreSQL Analysis Error: '' (Error ''Only SELECT queries can be analyzed''))"
proof -
  note T = analyze_rejects_invalid_queries [OF shop_connects(1) shop_connects(2) [of seq_scan]]
  have blank: "''   '' \<noteq> [] \<and> (\<forall>c\<in>set ''   ''. isWhiteSpace c)"
    by (simp add: isWhiteSpace_def)
  have update: "trim ''UPDATE t SET x=1'' \<noteq> []
      \<and> \<not> prefix ''select'' (toLowerCase (trim ''UPDATE t SET x=1''))"
    by (simp add: string_eval)
  have a: "fst (mysql_analyze sample_config (I18n_t EN) shop_mysql (JStr '''')) =
       Inl (Prefixed ''MySQL Analysis Error: '' (Error ''Invalid query provided''))
   \<and> fst (pg_analyze sample_config (I18n_t EN) (shop_pg seq_scan) (JStr '''')) =
       Inl (Prefixed ''PostgreSQL Analysis Error: '' (Error ''Invalid query provided''))"
    using T [of "JStr ''''" sample_config "I18n_t EN" "''''"] by simp
  have b: "fst (mysql_analyze sample_config (I18n_t EN) shop_mysql (JStr ''   '')) =
       Inl (Prefixed ''MySQL Analysis Error: '' (Error ''Empty query provided''))
   \<and> fst (pg_analyze sample_config (I18n_t EN) (shop_pg seq_scan) (JStr ''   '')) =
       Inl (Prefixed ''PostgreSQL Analysis Error: '' (Error ''Empty query provided''))"
    using T [of "JStr ''   ''" sample_config "I18n_t EN" "''   ''"] blank by blast
  have c: "fst (mysql_analyze sample_config (I18n_t EN) shop_mysql (JStr ''UPDATE t SET x=1'')) =
       Inl (Prefixed ''MySQL Analysis Error: '' (Error ''Only SELECT queries can be analyzed''))
   \<and> fst (pg_analyze sample_config (I18n_t EN) (shop_pg seq_scan) (JStr ''UPDATE t SET x=1'')) =
       Inl (Prefixed ''PostgreSQL Analysis Error: '' (Error ''Only SELECT queries can be analyzed''))"
    using T [of "JStr ''UPDATE t SET x=1''" sample_config "I18n_t EN" "''UPDATE t SET x=1''"] update
    by blast
  from a b c shop_connects(1) shop_connects(2) [of seq_scan] show ?thesis by blast
qed

section \<open>Plan payloads\<close>




section \<open>The order of the recommendations\<close>

text \<open>
  C5. For every list of recommendations and every priority list (in particular the one
  of the MySQL analyzer and the one of the PostgreSQL analyzer), the array returned by
  \<open>prioritizeRecommendations\<close> holds a permutation of the input that is ordered by
  severity rank (HIGH = 0, MEDIUM = 1, LOW = 2) and, within one severity, by the first
  position of the type in the priority list, a type that is not listed ranking after all
  listed ones. The sort is stable: the recommendations of any one severity and type rank
  appear in their input order. A singleton list is returned as it is.
\<close>

theorem prioritize_stable_two_key_sort:
  "(case prioritizeRecommendations pt r h of (r', h') \<Rightarrow> h' r' = prioritized pt (h r))
   \<and> mset (prioritized pt xs) = mset xs
   \<and> sorted_wrt (priority_le pt) (prioritized pt xs)
   \<and> (\<forall>k. filter (same_priority pt k) (prioritized pt xs) = filter (same_priority pt k) xs)
   \<and> prioritized pt [x] = [x]
   \<and> severityOrder HIGH = 0 \<and> severityOrder MEDIUM = 1 \<and> severityOrder LOW = 2
   \<and> (\<forall>ty. ty \<notin> set pt \<longrightarrow> type_rank pt ty = \<infinity>)
   \<and> (\<forall>ty. ty \<in> set pt \<longrightarrow>
         (\<exists>i<length pt. pt ! i = ty \<and> type_rank pt ty = enat i \<and> (\<forall>j<i. pt ! j \<noteq> ty)))"
proof -
  have "(case prioritizeRecommendations pt r h of (r', h') \<Rightarrow> h' r' = prioritized pt (h r))"
    by (simp add: prioritizeRecommendations_def)
  moreover have "mset (prioritized pt xs) = mset xs"
    by (simp add: prioritized_def mset_js_sort)
  moreover have "\<forall>k. filter (same_priority pt k) (prioritized pt xs) = filter (same_priority pt k) xs"
    by (simp add: filter_prioritized)
  moreover have "\<forall>ty. ty \<notin> set pt \<longrightarrow> type_rank pt ty = \<infinity>"
    by (simp add: type_rank_unlisted)
  moreover have "\<forall>ty. ty \<in> set pt \<longrightarrow>
         (\<exists>i<length pt. pt ! i = ty \<and> type_rank pt ty = enat i \<and> (\<forall>j<i. pt ! j \<noteq> ty))"
    using type_rank_position by blast
  ultimately show ?thesis
    using sorted_prioritized [of pt xs] prioritized_singleton [of pt x] by simp
qed

theorem prioritize_stable_two_key_sort_witness:
  "''WHERE_CLAUSE'' \<notin> set mysql_priorityTypes
   \<and> type_rank mysql_priorityTypes ''WHERE_CLAUSE'' = \<infinity>
   \<and> ''LARGE_TABLE_SCAN'' \<in> set mysql_priorityTypes
   \<and> (\<exists>i<length mysql_priorityTypes. mysql_priorityTypes ! i = ''LARGE_TABLE_SCAN''
         \<and> type_rank mysql_priorityTypes ''LARGE_TABLE_SCAN'' = enat i
         \<and> (\<forall>j<i. mysql_priorityTypes ! j \<noteq> ''LARGE_TABLE_SCAN''))
   \<and> mset (prioritized mysql_priorityTypes sample_findings) = mset sample_findings
   \<and> sorted_wrt (priority_le mysql_priorityTypes) (prioritized mysql_priorityTypes sample_findings)
   \<and> prioritized mysql_priorityTypes sample_findings =
       [sample_recommendation ''TABLE_SCAN'' HIGH,
        sample_recommendation ''LARGE_TABLE_SCAN'' HIGH,
        sample_recommendation ''FILE_SORT'' MEDIUM,
        sample_recommendation ''TEMP_TABLE'' MEDIUM,
        sample_recommendation ''WHERE_CLAUSE'' LOW]"
proof -
  have absent: "''WHERE_CLAUSE'' \<notin> set mysql_priorityTypes"
    by (simp add: mysql_priorityTypes_def)
  have listed: "''LARGE_TABLE_SCAN'' \<in> set mysql_priorityTypes"
    by (simp add: mysql_priorityTypes_def)
  have run: "prioritized mysql_priorityTypes sample_findings =
       [sample_recommendation ''TABLE_SCAN'' HIGH,
        sample_recommendation ''LARGE_TABLE_SCAN'' HIGH,
        sample_recommendation ''FILE_SORT'' MEDIUM,
        sample_recommendation ''TEMP_TABLE'' MEDIUM,
        sample_recommendation ''WHERE_CLAUSE'' LOW]"
    by (simp add: prioritized_def js_sort_def sample_findings_def sample_recommendation_def
        compareRecommendations_def mysql_priorityTypes_def)
  from prioritize_stable_two_key_sort
         [where pt = mysql_priorityTypes and r = 0 and h = sample_store and xs = sample_findings
            and x = "sample_recommendation ''TABLE_SCAN'' HIGH"]
       absent listed run
  show ?thesis by simp
qed

section \<open>The prioritizer and its argument\<close>

text \<open>
  C6 as stated fails: \<open>sort\<close> works in place, so after the call the caller's array holds
  the findings in prioritized order, not in their original order. Array \<open>0\<close> of the sample
  store holds a MEDIUM finding before a HIGH one; after the call it holds them swapped.
\<close>

theorem prioritize_leaves_input_counterexample:
  "sample_store 0 =
     [sample_recommendation ''ACCESS_TYPE'' MEDIUM, sample_recommendation ''TABLE_SCAN'' HIGH]
   \<and> snd (prioritizeRecommendations mysql_priorityTypes 0 sample_store) 0 =
     [sample_recommendation ''TABLE_SCAN'' HIGH, sample_recommendation ''ACCESS_TYPE'' MEDIUM]
   \<and> snd (prioritizeRecommendations mysql_priorityTypes 0 sample_store) 0 \<noteq> sample_store 0"
  by (simp add: prioritizeRecommendations_def prioritized_def js_sort_def sample_store_def
      sample_recommendation_def compareRecommendations_def mysql_priorityTypes_def)

text \<open>
  C6, amended. \<open>prioritizeRecommendations\<close> has no failure mode (the comparator is defined
  on every pair of recommendations and the model has no error branch), it returns the
  reference it was given, and it changes the store at that reference only: the caller's
  array then holds the same recommendations, as a multiset, in prioritized order, and it
  is left as it was exactly when it already was in prioritized order.
\<close>

theorem prioritize_sorts_in_place:
  assumes "prioritizeRecommendations pt r h = (r', h')"
  shows "r' = r
    \<and> (\<forall>a. a \<noteq> r \<longrightarrow> h' a = h a)
    \<and> h' r = prioritized pt (h r)
    \<and> mset (h' r) = mset (h r)
    \<and> (h' r = h r \<longleftrightarrow> sorted_wrt (priority_le pt) (h r))"
proof -
  from assms have r: "r' = r" and h: "h' = h(r := prioritized pt (h r))"
    by (auto simp: prioritizeRecommendations_def)
  have "mset (prioritized pt (h r)) = mset (h r)"
    by (simp add: prioritized_def mset_js_sort)
  with r h show ?thesis by (simp add: prioritized_fixed_iff)
qed

theorem prioritize_sorts_in_place_witness:
  "prioritizeRecommendations mysql_priorityTypes 0 sample_store =
     (0, sample_store(0 := [sample_recommendation ''TABLE_SCAN'' HIGH,
                            sample_recommendation ''ACCESS_TYPE'' MEDIUM]))
   \<and> (sample_store(0 := [sample_recommendation ''TABLE_SCAN'' HIGH,
                           sample_recommendation ''ACCESS_TYPE'' MEDIUM])) 1 = sample_store 1
   \<and> mset [sample_recommendation ''TABLE_SCAN'' HIGH, sample_recommendation ''ACCESS_TYPE'' MEDIUM]
       = mset (sample_store 0)
   \<and> \<not> sorted_wrt (priority_le mysql_priorityTypes) (sample_store 0)"
proof -
  define L where "L = [sample_recommendation ''TABLE_SCAN'' HIGH,
                       sample_recommendation ''ACCESS_TYPE'' MEDIUM]"
  have run: "prioritizeRecommendations mysql_priorityTypes 0 sample_store = (0, sample_store(0 := L))"
    by (simp add: L_def prioritizeRecommendations_def prioritized_def js_sort_def sample_store_def
        sample_recommendation_def compareRecommendations_def mysql_priorityTypes_def)
  have differ: "L \<noteq> sample_store 0"
    by (simp add: L_def sample_store_def sample_recommendation_def)
  have sel: "(sample_store(0 := L)) 0 = L" by simp
  from prioritize_sorts_in_place [OF run]
  have "mset L = mset (sample_store 0)
    \<and> (L = sample_store 0 \<longleftrightarrow> sorted_wrt (priority_le mysql_priorityTypes) (sample_store 0))"
    unfolding sel by blast
  with differ have "mset L = mset (sample_store 0)
    \<and> \<not> sorted_wrt (priority_le mysql_priorityTypes) (sample_store 0)"
    by blast
  moreover have "(sample_store(0 := L)) 1 = sample_store 1"
    using prioritize_sorts_in_place [OF run] by simp
  ultimately show ?thesis using run unfolding L_def by blast
qed

section \<open>The statistics rule\<close>

text \<open>
  C7 at its own example. The statistics rule emits LARGE_TABLE_SCAN (HIGH) and
  HIGH_INDEX_RATIO (LOW), and hands the row count to the translation service as the
  parameter \<open>rows\<close>. The service calls the template with the whole parameter object, so the
  rendered message holds \<open>[object Object]\<close> where the row count was to stand, in both
  languages.
\<close>

theorem large_table_scan_message_lacks_row_count:
  "mysql_analyzeTableStatistics (I18n_t EN) orders_row [orders_stat] [] =
     [finding (I18n_t EN) ''LARGE_TABLE_SCAN'' HIGH ''largeTableScan'' [(''rows'', JNum 50000)]
        [''addIndexes'', ''partition'', ''optimize''],
      finding (I18n_t EN) ''HIGH_INDEX_RATIO'' LOW ''highIndexRatio'' []
        [''review'', ''remove'', ''covering'']]
   \<and> message (finding (I18n_t EN) ''LARGE_TABLE_SCAN'' HIGH ''largeTableScan''
                [(''rows'', JNum 50000)] [''addIndexes'', ''partition'', ''optimize''])
       = Text ''Large table scan detected ([object Object] rows)''
   \<and> message (finding (I18n_t ID) ''LARGE_TABLE_SCAN'' HIGH ''largeTableScan''
                [(''rows'', JNum 50000)] [''addIndexes'', ''partition'', ''optimize''])
       = Text ''Pemindaian tabel besar terdeteksi ([object Object] baris)''
   \<and> map type (mysql_generateRecommendations (I18n_t EN) (Some orders_row) [orders_stat] []) =
       [''TABLE_SCAN'', ''LARGE_TABLE_SCAN'', ''ACCESS_TYPE'', ''HIGH_INDEX_RATIO'']
   \<and> map severity (mysql_generateRecommendations (I18n_t EN) (Some orders_row) [orders_stat] []) =
       [HIGH, HIGH, MEDIUM, LOW]"
proof -
  have m: "message (finding (I18n_t EN) ''LARGE_TABLE_SCAN'' HIGH ''largeTableScan''
                [(''rows'', JNum 50000)] [''addIndexes'', ''partition'', ''optimize''])
       = Text ''Large table scan detected ([object Object] rows)''"
    "message (finding (I18n_t ID) ''LARGE_TABLE_SCAN'' HIGH ''largeTableScan''
                [(''rows'', JNum 50000)] [''addIndexes'', ''partition'', ''optimize''])
       = Text ''Pemindaian tabel besar terdeteksi ([object Object] baris)''"
    using large_table_scan_text [of "[(''rows'', JNum 50000)]"] by (simp_all add: finding_def)
  have f: "map type (mysql_generateRecommendations (I18n_t EN) (Some orders_row) [orders_stat] []) =
       [''TABLE_SCAN'', ''LARGE_TABLE_SCAN'', ''ACCESS_TYPE'', ''HIGH_INDEX_RATIO'']"
    "map severity (mysql_generateRecommendations (I18n_t EN) (Some orders_row) [orders_stat] []) =
       [HIGH, HIGH, MEDIUM, LOW]"
    by (simp_all add: orders_findings finding_def)
  from m f orders_statistics_findings [of "I18n_t EN" "[]"] show ?thesis by simp
qed

section \<open>Metadata failures\<close>







section \<open>The connection\<close>

lemma select_orders_on_shop_pg:
  "snd (pg_analyze sample_config (I18n_t EN) (shop_pg seq_scan) (JStr ''select * from orders'')) =
     [NewPool, PoolConnect, Explain (pg_explain_statement ''select * from orders''),
      Statistics (Some ''public''), Indexes (Some ''public''), ClientRelease]"
  by (simp add: pg_analyze_success [OF shop_connects(2) validate_select_orders shop_explain(3)
        pg_explainResult_plan_response] pg_schema_def sample_config_def)

lemma select_orders_on_shop_mysql:
  "snd (mysql_analyze sample_config (I18n_t EN) shop_mysql (JStr ''select * from orders'')) =
     [CreateConnection, Explain ''EXPLAIN select * from orders'', Statistics (Some ''shop''),
      Indexes (Some ''shop''), ConnectionEnd]"
  by (simp add: mysql_analyze_success [OF shop_connects(1) validate_select_orders shop_explain(1)]
      sample_config_def)

text \<open>
  C9 on the code. The MySQL analyzer keeps the claim: on every path its calls leave
  nothing held, the connection it opened being ended in \<open>finally\<close>. The PostgreSQL
  analyzer does not: it creates a pool on every call and never ends it, and its
  \<open>finally\<close> only gives the client back to that pool. Whenever it has connected, whether
  it then returns a result or raises, the pool and the session to the server are still
  held; when the connection was refused, the pool is. For \<open>select * from orders\<close> on a
  reachable database the calls are the ones listed, and the session outlives them.
\<close>

theorem pg_analyze_leaves_session_open:
  "snd (pg_analyze cfg t pdb queryArg) =
     (case connect_outcome pdb of
        Some e \<Rightarrow> [NewPool, ConnectRefused]
      | None \<Rightarrow> NewPool # PoolConnect # snd (pg_analysis cfg t pdb queryArg) @ [ClientRelease])
   \<and> PoolEnd \<notin> set (snd (pg_analyze cfg t pdb queryArg))
   \<and> still_held (snd (pg_analyze cfg t pdb queryArg)) =
       (case connect_outcome pdb of Some e \<Rightarrow> {Pool} | None \<Rightarrow> {Pool, Session})
   \<and> snd (mysql_analyze cfg t mdb queryArg) =
       (case connect_outcome mdb of
          Some e \<Rightarrow> [ConnectRefused]
        | None \<Rightarrow> CreateConnection # snd (mysql_analysis cfg t mdb queryArg) @ [ConnectionEnd])
   \<and> still_held (snd (mysql_analyze cfg t mdb queryArg)) = {}
   \<and> snd (pg_analyze sample_config (I18n_t EN) (shop_pg seq_scan) (JStr ''select * from orders'')) =
       [NewPool, PoolConnect, Explain (pg_explain_statement ''select * from orders''),
        Statistics (Some ''public''), Indexes (Some ''public''), ClientRelease]
   \<and> still_held
         (snd (pg_analyze sample_config (I18n_t EN) (shop_pg seq_scan) (JStr ''select * from orders'')))
       = {Pool, Session}
   \<and> still_held
         (snd (mysql_analyze sample_config (I18n_t EN) shop_mysql (JStr ''select * from orders'')))
       = {}"
proof (intro conjI)
  show "snd (pg_analyze cfg t pdb queryArg) =
     (case connect_outcome pdb of
        Some e \<Rightarrow> [NewPool, ConnectRefused]
      | None \<Rightarrow> NewPool # PoolConnect # snd (pg_analysis cfg t pdb queryArg) @ [ClientRelease])"
    by (rule pg_analyze_calls)
  show "PoolEnd \<notin> set (snd (pg_analyze cfg t pdb queryArg))"
    by (rule pg_analyze_never_ends_pool)
  show "still_held (snd (pg_analyze cfg t pdb queryArg)) =
       (case connect_outcome pdb of Some e \<Rightarrow> {Pool} | None \<Rightarrow> {Pool, Session})"
    by (rule pg_analyze_still_held)
  show "snd (mysql_analyze cfg t mdb queryArg) =
       (case connect_outcome mdb of
          Some e \<Rightarrow> [ConnectRefused]
        | None \<Rightarrow> CreateConnection # snd (mysql_analysis cfg t mdb queryArg) @ [ConnectionEnd])"
    by (rule mysql_analyze_calls)
  show "still_held (snd (mysql_analyze cfg t mdb queryArg)) = {}"
    by (rule mysql_analyze_still_held)
  show "snd (pg_analyze sample_config (I18n_t EN) (shop_pg seq_scan) (JStr ''select * from orders'')) =
       [NewPool, PoolConnect, Explain (pg_explain_statement ''select * from orders''),
        Statistics (Some ''public''), Indexes (Some ''public''), ClientRelease]"
    by (rule select_orders_on_shop_pg)
  show "still_held
         (snd (pg_analyze sample_config (I18n_t EN) (shop_pg seq_scan) (JStr ''select * from orders'')))
       = {Pool, Session}"
    by (simp add: pg_analyze_still_held shop_connects)
  show "still_held
         (snd (mysql_analyze sample_config (I18n_t EN) shop_mysql (JStr ''select * from orders'')))
       = {}"
    by (rule mysql_analyze_still_held)
qed

section \<open>Errors inside the rules\<close>

text \<open>
  C10. \<open>generateRecommendations\<close> always returns a list. When the rules run through, it
  returns what they collected, prioritized. When a rule raises, the rules after it do
  not run, the error goes no further, and what the rules before it collected is
  prioritized and returned (a PostgreSQL rule that raises has not pushed anything). On
  MySQL \<open>EXPLAIN\<close> rows no rule raises. Without a plan the result is the empty list.
\<close>

theorem generateRecommendations_catches_rule_errors:
  "(pg_rules t plan stats idx = before @ failing # later
      \<and> run_rules before [] = (None, collected) \<and> fst (failing collected) \<noteq> None \<longrightarrow>
     pg_generateRecommendations t (Some \<lparr>Plan = plan\<rparr>) stats idx
       = prioritized pg_priorityTypes collected)
   \<and> (run_rules (pg_rules t plan stats idx) [] = (None, collected) \<longrightarrow>
     pg_generateRecommendations t (Some \<lparr>Plan = plan\<rparr>) stats idx
       = prioritized pg_priorityTypes collected)
   \<and> (\<exists>found. run_rules (mysql_rules t row mstats midx) [] = (None, found)
         \<and> mysql_generateRecommendations t (Some row) mstats midx
             = prioritized mysql_priorityTypes found)
   \<and> pg_generateRecommendations t None stats idx = []
   \<and> mysql_generateRecommendations t None mstats midx = []"
proof (intro conjI impI)
  assume a: "pg_rules t plan stats idx = before @ failing # later
      \<and> run_rules before [] = (None, collected) \<and> fst (failing collected) \<noteq> None"
  then have mem: "failing \<in> set (pg_rules t plan stats idx)" by simp
  from a obtain e where e: "fst (failing collected) = Some e" by blast
  from a have "snd (failing collected) = collected"
    using pg_rule_failure_keeps_array [OF mem] by blast
  with e have f: "failing collected = (Some e, collected)" by (simp add: prod_eq_iff)
  from a have b: "run_rules before [] = (None, collected)" by simp
  have "run_rules (pg_rules t plan stats idx) [] = (Some e, collected)"
    using a run_rules_stops_at_failure [of before "[]" collected failing e collected later, OF b f]
    by simp
  then show "pg_generateRecommendations t (Some \<lparr>Plan = plan\<rparr>) stats idx
       = prioritized pg_priorityTypes collected"
    by (simp add: pg_generateRecommendations_run)
next
  assume "run_rules (pg_rules t plan stats idx) [] = (None, collected)"
  then show "pg_generateRecommendations t (Some \<lparr>Plan = plan\<rparr>) stats idx
       = prioritized pg_priorityTypes collected"
    by (simp add: pg_generateRecommendations_run)
next
  have "run_rules (mysql_rules t row mstats midx) []
      = (None, snd (run_rules (mysql_rules t row mstats midx) []))"
    using mysql_rules_never_raise [of t row mstats midx "[]"] by (simp add: prod_eq_iff)
  then show "\<exists>found. run_rules (mysql_rules t row mstats midx) [] = (None, found)
         \<and> mysql_generateRecommendations t (Some row) mstats midx
             = prioritized mysql_priorityTypes found"
    using mysql_generateRecommendations_run [of t row mstats midx] by blast
next
  show "pg_generateRecommendations t None stats idx = []"
    by (simp add: pg_generateRecommendations_def)
next
  show "mysql_generateRecommendations t None mstats midx = []"
    by (simp add: mysql_generateRecommendations_def)
qed

theorem generateRecommendations_catches_rule_errors_witness:
  "pg_rules (I18n_t EN) (Some hash_join_no_cond) ([] :: pg_table_stat list) ([] :: pg_index list) =
     [pg_analyzeScanMethods (I18n_t EN) (Some hash_join_no_cond),
      pg_analyzeJoinOperations (I18n_t EN) (Some hash_join_no_cond),
      pg_analyzeTemporaryStructures (I18n_t EN) (Some hash_join_no_cond)]
     @ pg_analyzeIndexUsage (I18n_t EN) (Some hash_join_no_cond) ([] :: pg_index list) #
     [pg_analyzeTableStatistics (I18n_t EN) (Some hash_join_no_cond) ([] :: pg_table_stat list),
      pg_analyzeParallelExecution (I18n_t EN) (Some hash_join_no_cond),
      pg_analyzePartitioning (I18n_t EN) (Some hash_join_no_cond),
      pg_analyzeCTEUsage (I18n_t EN) (Some hash_join_no_cond),
      pg_analyzeAggregationOperations (I18n_t EN) (Some hash_join_no_cond),
      pg_analyzeMaterialization (I18n_t EN) (Some hash_join_no_cond)]
   \<and> fst (pg_analyzeIndexUsage (I18n_t EN) (Some hash_join_no_cond) ([] :: pg_index list)
            [finding (I18n_t EN) ''HASH_SPILL'' MEDIUM ''hashSpill'' []
               [''increaseMemory'', ''optimizeJoin'', ''partitionData'']]) \<noteq> None
   \<and> pg_generateRecommendations (I18n_t EN) (Some \<lparr>Plan = Some hash_join_no_cond\<rparr>)
        ([] :: pg_table_stat list) ([] :: pg_index list) =
       [finding (I18n_t EN) ''HASH_SPILL'' MEDIUM ''hashSpill'' []
          [''increaseMemory'', ''optimizeJoin'', ''partitionData'']]"
proof -
  let ?spill = "finding (I18n_t EN) ''HASH_SPILL'' MEDIUM ''hashSpill'' []
               [''increaseMemory'', ''optimizeJoin'', ''partitionData'']"
  have split: "pg_rules (I18n_t EN) (Some hash_join_no_cond) ([] :: pg_table_stat list) ([] :: pg_index list) =
     [pg_analyzeScanMethods (I18n_t EN) (Some hash_join_no_cond),
      pg_analyzeJoinOperations (I18n_t EN) (Some hash_join_no_cond),
      pg_analyzeTemporaryStructures (I18n_t EN) (Some hash_join_no_cond)]
     @ pg_analyzeIndexUsage (I18n_t EN) (Some hash_join_no_cond) ([] :: pg_index list) #
     [pg_analyzeTableStatistics (I18n_t EN) (Some hash_join_no_cond) ([] :: pg_table_stat list),
      pg_analyzeParallelExecution (I18n_t EN) (Some hash_join_no_cond),
      pg_analyzePartitioning (I18n_t EN) (Some hash_join_no_cond),
      pg_analyzeCTEUsage (I18n_t EN) (Some hash_join_no_cond),
      pg_analyzeAggregationOperations (I18n_t EN) (Some hash_join_no_cond),
      pg_analyzeMaterialization (I18n_t EN) (Some hash_join_no_cond)]"
    by (simp add: pg_rules_def)
  have raises: "fst (pg_analyzeIndexUsage (I18n_t EN) (Some hash_join_no_cond) ([] :: pg_index list)
            [?spill]) \<noteq> None"
    by (simp add: hash_join_no_cond_raises)
  note T = generateRecommendations_catches_rule_errors
    [where t = "I18n_t EN" and plan = "Some hash_join_no_cond"
       and stats = "[] :: pg_table_stat list" and idx = "[] :: pg_index list"
       and before = "[pg_analyzeScanMethods (I18n_t EN) (Some hash_join_no_cond),
      pg_analyzeJoinOperations (I18n_t EN) (Some hash_join_no_cond),
      pg_analyzeTemporaryStructures (I18n_t EN) (Some hash_join_no_cond)]"
       and failing = "pg_analyzeIndexUsage (I18n_t EN) (Some hash_join_no_cond) ([] :: pg_index list)"
       and collected = "[?spill]"]
  have "pg_generateRecommendations (I18n_t EN) (Some \<lparr>Plan = Some hash_join_no_cond\<rparr>)
        ([] :: pg_table_stat list) ([] :: pg_index list) = prioritized pg_priorityTypes [?spill]"
    using T split raises hash_join_no_cond_prefix [of "I18n_t EN"] by blast
  then show ?thesis using split raises by (simp add: prioritized_singleton)
qed

end
